theory Spec2Isabelle
  imports Main "HOL-Library.Code_Target_Numeral"
begin

section \<open>Data model\<close>

text \<open>
  Errors are values. \<open>Error\<close> is an ordinary Go error carrying its message,
  \<open>Recoverable\<close> is the error built by \<open>nstructs.NewRecoverableError(err, true)\<close>,
  \<open>ErrTaskNotFound\<close> is \<open>drivers.ErrTaskNotFound\<close>, and \<open>Panic\<close> is a Go run-time
  panic (an index out of range).
\<close>

datatype error = Error string | Recoverable string | ErrTaskNotFound | Panic string

datatype Verbosity = Quiet | Verbose

text \<open>The log levels of the LXC binding that the driver's table \<open>logLevels\<close> mentions.\<close>

datatype LogLevel = TRACE | DEBUG | INFO | WARN | ERROR

datatype TaskState_enum = TaskStateUnknown | TaskStateRunning | TaskStateExited

text \<open>\<open>Config\<close>: the driver configuration set by the SetConfig RPC call.\<close>

record Config =
  Config_Enabled :: bool
  Config_AllowVolumes :: bool
  Config_DefaultConfig :: string
  Config_LXCPath :: string
  Config_NetworkMode :: string
  Config_GC_Container :: bool

text \<open>\<open>TaskConfig\<close>: the driver configuration of a task within a job.\<close>

record TaskConfig =
  Template :: string
  Distro :: string
  Release :: string
  Arch :: string
  ImageVariant :: string
  ImageServer :: string
  GPGKeyID :: string
  GPGKeyServer :: string
  DisableGPGValidation :: bool
  FlushCache :: bool
  ForceCache :: bool
  TemplateArgs :: "string list"
  LogLevel :: string
  Verbosity :: string
  Volumes :: "string list"
  NetworkMode :: string
  DefaultConfig :: string
  Command :: "string list"
  Environment :: "string list"
  Cgroup :: string
  PortMap :: "(string \<times> int) list"

text \<open>
  The parts of \<open>drivers.TaskConfig\<close> that the driver reads. \<open>TaskDir\<close> holds the
  result of the method \<open>cfg.TaskDir()\<close>. \<open>Env\<close> is a Go map; the list gives its
  entries in the order in which the \<open>range\<close> loop of \<open>initializeContainer\<close> visits them.
  \<open>DecodeDriverConfig\<close> holds the result of the method \<open>cfg.DecodeDriverConfig\<close>
  on the encoded driver configuration block: an error message, or the decoded
  \<open>TaskConfig\<close>. \<open>MemoryMB\<close> and \<open>CPUShares\<close> are 64-bit signed integers
  in the source; no arithmetic is done on them as integers.
\<close>

record TaskDir =
  Dir :: string
  LocalDir :: string
  SharedAllocDir :: string
  SecretsDir :: string

record MountConfig =
  Mount_TaskPath :: string
  Mount_HostPath :: string
  Mount_Readonly :: bool

record DeviceConfig =
  Device_TaskPath :: string
  Device_HostPath :: string
  Device_Permissions :: string

record drivers_TaskConfig =
  ID :: string
  Name :: string
  AllocID :: string
  Env :: "(string \<times> string) list"
  MemoryMB :: int
  CPUShares :: int
  Mounts :: "MountConfig list"
  Devices :: "DeviceConfig list"
  TaskDir :: TaskDir
  DecodeDriverConfig :: "string + TaskConfig"

text \<open>\<open>lxc.TemplateOptions\<close>, as filled by \<open>toLXCCreateOptions\<close>.\<close>

record TemplateOptions =
  TO_Template :: string
  TO_Distro :: string
  TO_Release :: string
  TO_Arch :: string
  TO_FlushCache :: bool
  TO_DisableGPGValidation :: bool
  TO_ExtraArgs :: "string list"

text \<open>
  The calls on an \<open>lxc.Container\<close> that change it or the container behind it. The
  argument of \<open>SetMemoryLimit\<close> is the value of the \<open>lxc.ByteSize\<close> passed, a float
  whose value is an integer in every call the driver makes.
\<close>

datatype lxc_op =
    NewContainer string
  | SetVerbosity Verbosity
  | SetLogLevel LogLevel
  | SetLogFile string
  | SetConfigItem string string
  | LoadConfigFile string
  | Create TemplateOptions
  | StartExecute "string list"
  | SetCgroupItem string string
  | SetMemoryLimit int
  | Stop
  | Destroy

text \<open>An event is a call together with the name of the container it was made on.\<close>

type_synonym event = "string \<times> lxc_op"

text \<open>The driver's reference to a container: its name and the LXC path it lives under.\<close>

record Container =
  c_name :: string
  c_path :: string

datatype log_level = LInfo | LWarn | LError

text \<open>
  A log entry: level, message, and the error text attached to it, if any. The
  structures that the source attaches with \<open>hclog.Fmt("%+v", ...)\<close> are left out.
\<close>

type_synonym log_entry = "log_level \<times> string \<times> string option"

text \<open>\<open>TaskState\<close>: the state encoded in the handle returned by StartTask.\<close>

record TaskState =
  TS_TaskConfig :: drivers_TaskConfig
  ContainerName :: string
  StartedAt :: nat

text \<open>
  \<open>taskHandle\<close>: the driver's handle of one task. The three CPU statistics objects
  are left out (they start empty and no operation modelled here reads them).
  The fields carry the prefix \<open>th_\<close>. \<open>th_exitResult\<close> is \<open>None\<close> for the nil pointer
  StartTask leaves there and \<open>Some (exit code, OOM killed, error)\<close> otherwise.
\<close>

record taskHandle =
  th_container :: Container
  th_initPid :: int
  th_taskConfig :: drivers_TaskConfig
  th_procState :: TaskState_enum
  th_startedAt :: nat
  th_exitResult :: "(int \<times> bool \<times> string option) option"

text \<open>
  \<open>drivers.TaskHandle\<close>: the handle exchanged with the caller. The encoded driver
  state is opaque to the driver; its type is the parameter \<open>'st\<close>, and \<open>None\<close> is
  the state of a handle on which \<open>SetDriverState\<close> has not been called.
\<close>

record 'st drivers_TaskHandle =
  H_Version :: nat
  H_Config :: drivers_TaskConfig
  H_State :: TaskState_enum
  H_DriverState :: "'st option"

text \<open>
  The driver: its configuration, its task store, and the tasks for which a monitoring
  goroutine \<open>h.run()\<close> was started. The other fields of the source's \<open>Driver\<close>
  (eventer, contexts, logger) are not part of it; what the logger prints is part of
  the world below.
\<close>

record Driver =
  config :: Config
  tasks :: "string \<rightharpoonup> taskHandle"
  monitors :: "string list"

text \<open>
  The world outside the driver that its operations change: the calls made on the LXC
  runtime so far (failed calls included) and the logger's output. A method of the
  driver that only reads the driver takes the driver \<open>d\<close> and the world, and returns
  its result and the world; StartTask, RecoverTask and DestroyTask, which change the
  task store, return the driver as well.
\<close>

record World =
  lxc_trace :: "event list"
  logs :: "log_entry list"

text \<open>
  Everything the driver calls and this repository does not define is a parameter:
  \<^item> \<open>lxc_fail\<close>: the error, if any, that a call on a container returns, given the
    calls made so far;
  \<^item> \<open>lxc_Running\<close>, \<open>lxc_InitPid\<close>: the answers of \<open>c.Running()\<close> and \<open>c.InitPid()\<close>;
  \<^item> \<open>lxc_VersionAtLeast\<close>, \<open>lxc_DefaultConfigPath\<close>: the library's version test and
    default path;
  \<^item> \<open>filepath_Rel\<close>: \<open>filepath.Rel\<close> of the Go library, an error message or the
    relative path;
  \<^item> \<open>os_Stat\<close>: an error, or whether the path is a directory;
  \<^item> \<open>DeviceFromPath\<close>: an error, or the \<open>CgroupString()\<close> of the device found;
  \<^item> \<open>strconv_Quote\<close>: the rendering of \<open>%q\<close>;
  \<^item> \<open>SetDriverState\<close>, \<open>GetDriverState\<close>: the encoder and the decoder of the
    persisted task state, each returning an error message or its result;
  \<^item> \<open>time_Now\<close>: the clock, in nanoseconds;
  \<^item> \<open>recoverPre09Task\<close>: the compatibility path of RecoverTask;
  \<^item> \<open>IsRunning\<close>: \<open>taskHandle.IsRunning\<close>;
  \<^item> \<open>shutdown\<close>: \<open>taskHandle.shutdown\<close>, given the handle, the timeout in
    nanoseconds and the calls made on the runtime so far; it returns an error or nil,
    the handle as it leaves it, and the calls it makes on the runtime;
  all of them defined outside the source files modelled here.
\<close>

record 'st host =
  lxc_fail :: "event list \<Rightarrow> string \<Rightarrow> lxc_op \<Rightarrow> string option"
  lxc_Running :: "event list \<Rightarrow> string \<Rightarrow> bool"
  lxc_InitPid :: "event list \<Rightarrow> string \<Rightarrow> int"
  lxc_VersionAtLeast :: "nat \<Rightarrow> nat \<Rightarrow> nat \<Rightarrow> bool"
  lxc_DefaultConfigPath :: string
  filepath_Rel :: "string \<Rightarrow> string \<Rightarrow> string + string"
  os_Stat :: "string \<Rightarrow> string + bool"
  DeviceFromPath :: "string \<Rightarrow> string \<Rightarrow> string + string"
  strconv_Quote :: "string \<Rightarrow> string"
  SetDriverState :: "TaskState \<Rightarrow> string + 'st"
  GetDriverState :: "'st option \<Rightarrow> string + TaskState"
  time_Now :: nat
  recoverPre09Task :: "'st drivers_TaskHandle \<Rightarrow> Driver \<Rightarrow> World \<Rightarrow> error option \<times> Driver \<times> World"
  IsRunning :: "taskHandle \<Rightarrow> bool"
  shutdown :: "taskHandle \<Rightarrow> nat \<Rightarrow> event list \<Rightarrow> string option \<times> taskHandle \<times> event list"

section \<open>Calls on the runtime and on the logger\<close>

definition lxc :: "'st host \<Rightarrow> Container \<Rightarrow> lxc_op \<Rightarrow> World \<Rightarrow> string option \<times> World" where
  "lxc env c op s =
     (lxc_fail env (lxc_trace s) (c_name c) op,
      s\<lparr>lxc_trace := lxc_trace s @ [(c_name c, op)]\<rparr>)"

definition logger :: "log_level \<Rightarrow> string \<Rightarrow> string option \<Rightarrow> World \<Rightarrow> World" where
  "logger lv msg err s = s\<lparr>logs := logs s @ [(lv, msg, err)]\<rparr>"

section \<open>Network configuration\<close>

definition networkTypeConfigPrefix :: "'st host \<Rightarrow> string" where
  "networkTypeConfigPrefix env =
     (if lxc_VersionAtLeast env 2 1 0 then ''lxc.net.0.'' else ''lxc.network.'')"

definition configureContainerNetwork ::
  "'st host \<Rightarrow> Driver \<Rightarrow> Container \<Rightarrow> TaskConfig \<Rightarrow> World \<Rightarrow> error option \<times> World" where
  "configureContainerNetwork env d c taskConfig s0 =
     (let mode = (if NetworkMode taskConfig = [] then Config_NetworkMode (config d)
                  else NetworkMode taskConfig);
          lxcKeyPrefix = networkTypeConfigPrefix env
      in if mode = ''host'' then
           (case lxc env c (SetConfigItem (lxcKeyPrefix @ ''type'') ''none'') s0 of
              (Some err, s1) \<Rightarrow>
                (Some (Error (''error setting network type configuration 'none': '' @ err)), s1)
            | (None, s1) \<Rightarrow> (None, s1))
         else if mode = ''bridge'' then
           (case lxc env c (SetConfigItem (lxcKeyPrefix @ ''type'') ''veth'') s0 of
              (Some err, s1) \<Rightarrow>
                (Some (Error (''error setting network type configuration 'veth': '' @ err)), s1)
            | (None, s1) \<Rightarrow>
                (case lxc env c (SetConfigItem (lxcKeyPrefix @ ''link'') ''lxcbr0'') s1 of
                   (Some err, s2) \<Rightarrow>
                     (Some (Error (''error setting network link configuration: '' @ err)), s2)
                 | (None, s2) \<Rightarrow>
                     (case lxc env c (SetConfigItem (lxcKeyPrefix @ ''flags'') ''up'') s2 of
                        (Some err, s3) \<Rightarrow>
                          (Some (Error (''error setting network flags configuration: '' @ err)), s3)
                      | (None, s3) \<Rightarrow> (None, s3))))
         else (Some (Error ''Network mode is undefined''), s0))"

section \<open>Strings and paths of the Go library\<close>

text \<open>
  The functions of the packages \<open>strings\<close> and \<open>path/filepath\<close> (Unix) that the driver
  calls. \<open>strings_Split\<close> takes a separator of one character, as every call of the
  source does; it never returns the empty list.
\<close>

fun strings_Split :: "string \<Rightarrow> char \<Rightarrow> string list" where
  "strings_Split [] sep = [[]]"
| "strings_Split (x # xs) sep =
     (if x = sep then [] # strings_Split xs sep
      else (case strings_Split xs sep of [] \<Rightarrow> [[x]] | y # ys \<Rightarrow> (x # y) # ys))"

fun strings_Join :: "string list \<Rightarrow> string \<Rightarrow> string" where
  "strings_Join [] sep = []"
| "strings_Join [e] sep = e"
| "strings_Join (e # es) sep = e @ sep @ strings_Join es sep"

definition strings_TrimLeft :: "string \<Rightarrow> string \<Rightarrow> string" where
  "strings_TrimLeft x cutset = dropWhile (\<lambda>c. c \<in> set cutset) x"

definition strings_HasPrefix :: "string \<Rightarrow> string \<Rightarrow> bool" where
  "strings_HasPrefix x p = (take (length p) x = p)"

fun strings_Contains :: "string \<Rightarrow> string \<Rightarrow> bool" where
  "strings_Contains [] sub = (sub = [])"
| "strings_Contains (x # xs) sub =
     (strings_HasPrefix (x # xs) sub \<or> strings_Contains xs sub)"

text \<open>The decimal digits of a natural number, and \<open>strconv.FormatInt(i, 10)\<close>.\<close>

fun FormatUint :: "nat \<Rightarrow> string" where
  "FormatUint n =
     (if n < 10 then [''0123456789'' ! n]
      else FormatUint (n div 10) @ [''0123456789'' ! (n mod 10)])"

declare FormatUint.simps [simp del]

definition strconv_FormatInt :: "int \<Rightarrow> string" where
  "strconv_FormatInt i = (if i < 0 then ''-'' @ FormatUint (nat (- i)) else FormatUint (nat i))"

definition filepath_IsAbs :: "string \<Rightarrow> bool" where
  "filepath_IsAbs path = strings_HasPrefix path ''/''"

text \<open>
  \<open>filepath.Clean\<close>. \<open>out\<close> is the part of the buffer written so far (its length is
  the index \<open>w\<close> of the library's buffer), \<open>p\<close> is the input from index \<open>r\<close> on.
  \<open>Clean_backtrack\<close> is the index at which a \<open>..\<close> element cuts the buffer.
\<close>

fun Clean_backtrack :: "string \<Rightarrow> nat \<Rightarrow> nat \<Rightarrow> nat" where
  "Clean_backtrack out dotdot 0 = 0"
| "Clean_backtrack out dotdot (Suc w) =
     (if Suc w > dotdot \<and> out ! (Suc w) \<noteq> CHR ''/'' then Clean_backtrack out dotdot w
      else Suc w)"

function Clean_loop :: "bool \<Rightarrow> string \<Rightarrow> string \<Rightarrow> nat \<Rightarrow> string" where
  "Clean_loop rooted [] out dotdot = out"
| "Clean_loop rooted (x # xs) out dotdot =
     (if x = CHR ''/'' then Clean_loop rooted xs out dotdot
      else if x = CHR ''.'' \<and> (xs = [] \<or> hd xs = CHR ''/'') then Clean_loop rooted xs out dotdot
      else if x = CHR ''.'' \<and> hd xs = CHR ''.'' \<and> (tl xs = [] \<or> hd (tl xs) = CHR ''/'') then
        (if length out > dotdot then
           Clean_loop rooted (tl xs)
             (take (Clean_backtrack out dotdot (length out - 1)) out) dotdot
         else if \<not> rooted then
           Clean_loop rooted (tl xs)
             ((if out \<noteq> [] then out @ ''/'' else out) @ ''..'')
             (length ((if out \<noteq> [] then out @ ''/'' else out) @ ''..''))
         else Clean_loop rooted (tl xs) out dotdot)
      else
        Clean_loop rooted (dropWhile (\<lambda>c. c \<noteq> CHR ''/'') xs)
          ((if (rooted \<and> length out \<noteq> 1) \<or> (\<not> rooted \<and> length out \<noteq> 0)
            then out @ ''/'' else out) @ x # takeWhile (\<lambda>c. c \<noteq> CHR ''/'') xs)
          dotdot)"
  by pat_completeness auto
termination
  by (relation "measure (\<lambda>(rooted, p, out, dotdot). length p)")
     (auto simp: le_imp_less_Suc length_dropWhile_le)

definition filepath_Clean :: "string \<Rightarrow> string" where
  "filepath_Clean path =
     (if path = [] then ''.''
      else let out = (if hd path = CHR ''/'' then Clean_loop True (tl path) ''/'' 1
                      else Clean_loop False path [] 0)
           in if out = [] then ''.'' else out)"

fun filepath_Join :: "string list \<Rightarrow> string" where
  "filepath_Join [] = []"
| "filepath_Join (e # es) =
     (if e \<noteq> [] then filepath_Clean (strings_Join (e # es) ''/'') else filepath_Join es)"

declare filepath_Join.simps [simp del]

section \<open>Mounts, devices and volumes\<close>

definition pathEscapesSandbox :: "'st host \<Rightarrow> string \<Rightarrow> string \<Rightarrow> bool" where
  "pathEscapesSandbox env sandboxDir path =
     (case filepath_Rel env sandboxDir path of
        Inl err \<Rightarrow> True
      | Inr rel \<Rightarrow> if strings_HasPrefix rel ''..'' then True else False)"

definition formatMount :: "'st host \<Rightarrow> string \<Rightarrow> string \<Rightarrow> bool \<Rightarrow> World \<Rightarrow> string \<times> World" where
  "formatMount env hostPath taskPath readOnly s0 =
     (let typ = (case os_Stat env hostPath of
                   Inl err \<Rightarrow> ''dir''
                 | Inr isDir \<Rightarrow> if \<not> isDir then ''file'' else ''dir'');
          s1 = (case os_Stat env hostPath of
                  Inl err \<Rightarrow>
                    logger LWarn ''failed to find mount host path type, defaulting to dir type''
                      (Some err) s0
                | Inr isDir \<Rightarrow> s0);
          perm = (if readOnly then ''ro'' else ''rw'');
          target = strings_TrimLeft taskPath ''/''
      in (hostPath @ '' '' @ target @ '' none '' @ perm @ '',bind,create='' @ typ, s1))"

fun formatTaskMounts :: "'st host \<Rightarrow> MountConfig list \<Rightarrow> World \<Rightarrow> string list \<times> World" where
  "formatTaskMounts env [] s = ([], s)"
| "formatTaskMounts env (m # ms) s =
     (case formatMount env (Mount_HostPath m) (Mount_TaskPath m) (Mount_Readonly m) s of
        (r, s1) \<Rightarrow> (case formatTaskMounts env ms s1 of (rs, s2) \<Rightarrow> (r # rs, s2)))"

fun formatTaskDevices :: "'st host \<Rightarrow> DeviceConfig list \<Rightarrow> World \<Rightarrow> string list \<times> World" where
  "formatTaskDevices env [] s = ([], s)"
| "formatTaskDevices env (m # ms) s =
     (case formatMount env (Device_HostPath m) (Device_TaskPath m)
             (\<not> strings_Contains (Device_Permissions m) ''w'') s of
        (r, s1) \<Rightarrow> (case formatTaskDevices env ms s1 of (rs, s2) \<Rightarrow> (r # rs, s2)))"

text \<open>
  The last four statements of the body of the volume loop of \<open>mountEntries\<close>: the reads
  of \<open>paths[1]\<close>, \<open>paths[2]\<close> and \<open>paths[3]\<close>, each of which panics when the volume
  string has too few fields, and the entry they build.
\<close>

definition mountEntries_entry :: "string list \<Rightarrow> error + string" where
  "mountEntries_entry paths =
     (if length paths \<le> 1 then
        Inl (Panic (''runtime error: index out of range [1] with length '' @ FormatUint (length paths)))
      else if length paths \<le> 2 then
        Inl (Panic (''runtime error: index out of range [2] with length '' @ FormatUint (length paths)))
      else if length paths \<le> 3 then
        Inl (Panic (''runtime error: index out of range [3] with length '' @ FormatUint (length paths)))
      else Inr (paths ! 0 @ '' '' @ strings_TrimLeft (paths ! 1) ''/'' @ '' none '' @ paths ! 2
                  @ '',bind,create='' @ paths ! 3))"

text \<open>The volume loop of \<open>mountEntries\<close>; \<open>dir\<close> is \<open>cfg.TaskDir().Dir\<close>.\<close>

fun mountEntries_volumes ::
  "'st host \<Rightarrow> bool \<Rightarrow> string \<Rightarrow> string list \<Rightarrow> string list \<Rightarrow> World \<Rightarrow>
     (error + string list) \<times> World" where
  "mountEntries_volumes env volumesEnabled dir [] mounts s = (Inr mounts, s)"
| "mountEntries_volumes env volumesEnabled dir (volDesc # vs) mounts s =
     (let s1 = logger LInfo ''get volume'' None s;
          paths = strings_Split volDesc CHR '':''
      in if filepath_IsAbs (paths ! 0) then
           (if \<not> volumesEnabled then
              (Inl (Error ''absolute bind-mount volume in config but volumes are disabled''), s1)
            else
              (case mountEntries_entry paths of
                 Inl e \<Rightarrow> (Inl e, s1)
               | Inr m \<Rightarrow> mountEntries_volumes env volumesEnabled dir vs (mounts @ [m]) s1))
         else
           (if \<not> volumesEnabled \<and> pathEscapesSandbox env dir (filepath_Join [dir, paths ! 0]) then
              (Inl (Error ''bind-mount path escapes task directory but volumes are disabled''), s1)
            else
              (case mountEntries_entry (paths[0 := filepath_Join [dir, paths ! 0]]) of
                 Inl e \<Rightarrow> (Inl e, s1)
               | Inr m \<Rightarrow> mountEntries_volumes env volumesEnabled dir vs (mounts @ [m]) s1)))"

definition mountEntries ::
  "'st host \<Rightarrow> Driver \<Rightarrow> drivers_TaskConfig \<Rightarrow> TaskConfig \<Rightarrow> World \<Rightarrow> (error + string list) \<times> World" where
  "mountEntries env d cfg taskConfig s0 =
     (let mounts = [LocalDir (TaskDir cfg) @ '' local none rw,bind,create=dir'',
                    SharedAllocDir (TaskDir cfg) @ '' alloc none rw,bind,create=dir'',
                    SecretsDir (TaskDir cfg) @ '' secrets none rw,bind,create=dir'']
      in case formatTaskMounts env (Mounts cfg) s0 of
           (tm, s1) \<Rightarrow>
             (case formatTaskDevices env (Devices cfg) s1 of
                (td, s2) \<Rightarrow>
                  mountEntries_volumes env (Config_AllowVolumes (config d)) (Dir (TaskDir cfg))
                    (Volumes taskConfig) (mounts @ tm @ td) s2))"

fun devicesCgroupEntries :: "'st host \<Rightarrow> DeviceConfig list \<Rightarrow> error + string list" where
  "devicesCgroupEntries env [] = Inr []"
| "devicesCgroupEntries env (d # ds) =
     (case DeviceFromPath env (Device_HostPath d) (Device_Permissions d) of
        Inl err \<Rightarrow> Inl (Error err)
      | Inr entry \<Rightarrow>
          (case devicesCgroupEntries env ds of
             Inl e \<Rightarrow> Inl e
           | Inr entries \<Rightarrow> Inr (entry # entries)))"

text \<open>The two loops of \<open>mountVolumes\<close> that hand the entries to the container.\<close>

fun mountVolumes_mounts :: "'st host \<Rightarrow> Container \<Rightarrow> string list \<Rightarrow> World \<Rightarrow> error option \<times> World" where
  "mountVolumes_mounts env c [] s = (None, s)"
| "mountVolumes_mounts env c (mnt # ms) s =
     (case lxc env c (SetConfigItem ''lxc.mount.entry'' mnt) s of
        (Some err, s1) \<Rightarrow>
          (Some (Error (''error setting bind mount '' @ strconv_Quote env mnt @ '' error: '' @ err)), s1)
      | (None, s1) \<Rightarrow> mountVolumes_mounts env c ms s1)"

fun mountVolumes_devices :: "'st host \<Rightarrow> Container \<Rightarrow> string list \<Rightarrow> World \<Rightarrow> error option \<times> World" where
  "mountVolumes_devices env c [] s = (None, s)"
| "mountVolumes_devices env c (cgroupDev # ds) s =
     (case lxc env c (SetConfigItem ''lxc.cgroup.devices.allow'' cgroupDev) s of
        (Some err, s1) \<Rightarrow>
          (Some (Error (''error setting cgroup permission '' @ strconv_Quote env cgroupDev
                          @ '' error: '' @ err)), s1)
      | (None, s1) \<Rightarrow> mountVolumes_devices env c ds s1)"

definition mountVolumes ::
  "'st host \<Rightarrow> Driver \<Rightarrow> Container \<Rightarrow> drivers_TaskConfig \<Rightarrow> TaskConfig \<Rightarrow> World \<Rightarrow> error option \<times> World" where
  "mountVolumes env d c cfg taskConfig s0 =
     (case mountEntries env d cfg taskConfig s0 of
        (Inl e, s1) \<Rightarrow> (Some e, s1)
      | (Inr mounts, s1) \<Rightarrow>
          (case devicesCgroupEntries env (Devices cfg) of
             Inl e \<Rightarrow> (Some e, s1)
           | Inr devCgroupAllows \<Rightarrow>
               (case mountVolumes_mounts env c mounts s1 of
                  (Some e, s2) \<Rightarrow> (Some e, s2)
                | (None, s2) \<Rightarrow> mountVolumes_devices env c devCgroupAllows s2)))"

section \<open>Resource limits\<close>

text \<open>
  \<open>lxc.ByteSize\<close> is a 64-bit float. \<open>float64_of_int\<close> is the value of the conversion
  of an integer to that type: the integer itself when it has at most 53 significant
  bits, and otherwise the nearest integer with 53 significant bits, a tie going to
  the one whose last kept bit is zero. The product with \<open>lxc.MB\<close>, the float
  \<open>1048576\<close>, is exact, being a product with a power of two far from overflow, and
  the format \<open>%.f\<close> prints the decimal digits of the integer value.
\<close>

fun bit_length :: "nat \<Rightarrow> nat" where
  "bit_length n = (if n = 0 then 0 else Suc (bit_length (n div 2)))"

declare bit_length.simps [simp del]

definition float64_of_int :: "int \<Rightarrow> int" where
  "float64_of_int i =
     (let a = nat \<bar>i\<bar>; e = bit_length a - 53
      in if e = 0 then i
         else
           let q = a div 2 ^ e; r = a mod 2 ^ e; half = 2 ^ (e - 1)
           in sgn i * int ((if r > half \<or> (r = half \<and> odd q) then q + 1 else q) * 2 ^ e))"

definition MB :: int where
  "MB = 1048576"

text \<open>\<open>fmt.Sprintf("%.f", v)\<close> for a float \<open>v\<close> whose value is an integer.\<close>

definition Sprintf_f :: "int \<Rightarrow> string" where
  "Sprintf_f v = strconv_FormatInt v"

definition setResourceLimits ::
  "'st host \<Rightarrow> Container \<Rightarrow> drivers_TaskConfig \<Rightarrow> World \<Rightarrow> error option \<times> World" where
  "setResourceLimits env c cfg s0 =
     (case lxc env c (SetCgroupItem ''memory.max''
                        (Sprintf_f (float64_of_int (MemoryMB cfg) * MB))) s0 of
        (r1, s1) \<Rightarrow>
     (case (case r1 of
              None \<Rightarrow> (None, s1)
            | Some err \<Rightarrow> lxc env c (SetMemoryLimit (float64_of_int (MemoryMB cfg) * MB)) s1) of
        (Some err, s2) \<Rightarrow> (Some (Error (''unable to set memory limits: '' @ err)), s2)
      | (None, s2) \<Rightarrow>
     (case lxc env c (SetCgroupItem ''cpu.weight'' (strconv_FormatInt (CPUShares cfg))) s2 of
        (r3, s3) \<Rightarrow>
     (case (case r3 of
              None \<Rightarrow> (None, s3)
            | Some err \<Rightarrow>
                lxc env c (SetCgroupItem ''cpu.shares'' (strconv_FormatInt (CPUShares cfg))) s3) of
        (Some err, s4) \<Rightarrow> (Some (Error (''unable to set cpu shares: '' @ err)), s4)
      | (None, s4) \<Rightarrow> (None, s4)))))"

section \<open>Container initialization\<close>

definition verbosityLevels :: "string \<rightharpoonup> Verbosity" where
  "verbosityLevels = map_of [([], Quiet), (''verbose'', Verbose), (''quiet'', Quiet)]"

definition logLevels :: "string \<rightharpoonup> LogLevel" where
  "logLevels = map_of [([], ERROR), (''debug'', DEBUG), (''error'', ERROR), (''info'', INFO),
                       (''trace'', TRACE), (''warn'', WARN)]"

definition lxcPath :: "'st host \<Rightarrow> Driver \<Rightarrow> string" where
  "lxcPath env d =
     (if Config_LXCPath (config d) = [] then lxc_DefaultConfigPath env
      else Config_LXCPath (config d))"

text \<open>
  The two loops of \<open>initializeContainer\<close> that set the environment directives; the
  value \<open>SetConfigItem\<close> returns is dropped, as in the source.
\<close>

fun initializeContainer_environment :: "'st host \<Rightarrow> Container \<Rightarrow> string list \<Rightarrow> World \<Rightarrow> World" where
  "initializeContainer_environment env c [] s = s"
| "initializeContainer_environment env c (e # es) s =
     initializeContainer_environment env c es
       (snd (lxc env c (SetConfigItem ''lxc.environment'' e) s))"

definition initializeContainer ::
  "'st host \<Rightarrow> Driver \<Rightarrow> drivers_TaskConfig \<Rightarrow> TaskConfig \<Rightarrow> World \<Rightarrow> (error + Container) \<times> World" where
  "initializeContainer env d cfg taskConfig s0 =
     (let c = \<lparr>c_name = Name cfg @ ''-'' @ AllocID cfg, c_path = lxcPath env d\<rparr>
      in case lxc env c (NewContainer (lxcPath env d)) s0 of
        (Some err, s1) \<Rightarrow> (Inl (Error (''failed to initialize container: '' @ err)), s1)
      | (None, s1) \<Rightarrow>
     (case verbosityLevels (Verbosity taskConfig) of
        None \<Rightarrow>
          (Inl (Error ''lxc driver config 'verbosity' can only be either quiet or verbose''),
           logger LInfo ''NewContainer'' None s1)
      | Some v \<Rightarrow>
     (case logLevels (LogLevel taskConfig) of
        None \<Rightarrow>
          (Inl (Error ''lxc driver config 'log_level' can only be trace, debug, info, warn or error''),
           snd (lxc env c (SetVerbosity v) (logger LInfo ''NewContainer'' None s1)))
      | Some l \<Rightarrow>
     (case lxc env c (SetLogLevel l)
             (snd (lxc env c (SetVerbosity v) (logger LInfo ''NewContainer'' None s1))) of
        (Some err, s2) \<Rightarrow> (Inl (Error err), s2)
      | (None, s2) \<Rightarrow>
     (case lxc env c (SetLogFile (filepath_Join [Dir (TaskDir cfg), Name cfg @ ''-lxc.log''])) s2 of
        (Some err, s3) \<Rightarrow> (Inl (Error err), s3)
      | (None, s3) \<Rightarrow>
     (let s4 = snd (lxc env c (SetConfigItem ''lxc.cgroup.dir'' (Cgroup taskConfig)) s3);
          s5 = initializeContainer_environment env c (Environment taskConfig) s4;
          s6 = initializeContainer_environment env c (map (\<lambda>(key, val). key @ ''='' @ val) (Env cfg)) s5;
          defaultConfig = (if DefaultConfig taskConfig = [] then Config_DefaultConfig (config d)
                           else DefaultConfig taskConfig)
      in case lxc env c (LoadConfigFile defaultConfig) s6 of
           (Some err, s7) \<Rightarrow>
             (Inr c, logger LInfo ''Done initializeContainer'' None
                       (logger LWarn ''failed to load default config'' (Some err) s7))
         | (None, s7) \<Rightarrow> (Inr c, logger LInfo ''Done initializeContainer'' None s7)))))))"

definition toLXCCreateOptions :: "TaskConfig \<Rightarrow> TemplateOptions" where
  "toLXCCreateOptions taskConfig =
     \<lparr>TO_Template = Template taskConfig,
      TO_Distro = Distro taskConfig,
      TO_Release = Release taskConfig,
      TO_Arch = Arch taskConfig,
      TO_FlushCache = FlushCache taskConfig,
      TO_DisableGPGValidation = DisableGPGValidation taskConfig,
      TO_ExtraArgs = TemplateArgs taskConfig\<rparr>"

section \<open>The task store\<close>

text \<open>
  Modelled from the spec: the task store (section 4.6 of the specification), whose
  source file is not among the sources. It is a map keyed by task ID; \<open>Get\<close> on a
  missing key gives the "not found" answer, which is \<open>None\<close> here.
\<close>

definition taskStore_Get :: "(string \<rightharpoonup> taskHandle) \<Rightarrow> string \<Rightarrow> taskHandle option" where
  "taskStore_Get store taskID = store taskID"

text \<open>
  Modelled from the spec: \<open>Set\<close> of the task store (section 4.6), which binds the
  task ID to the handle and leaves every other key as it is.
\<close>

definition taskStore_Set ::
  "(string \<rightharpoonup> taskHandle) \<Rightarrow> string \<Rightarrow> taskHandle \<Rightarrow> (string \<rightharpoonup> taskHandle)" where
  "taskStore_Set store taskID h = store(taskID \<mapsto> h)"

text \<open>
  Modelled from the spec: \<open>Delete\<close> of the task store (section 4.6), which removes
  the task ID and leaves every other key as it is.
\<close>

definition taskStore_Delete :: "(string \<rightharpoonup> taskHandle) \<Rightarrow> string \<Rightarrow> (string \<rightharpoonup> taskHandle)" where
  "taskStore_Delete store taskID = store(taskID := None)"

section \<open>Starting a task\<close>

definition taskHandleVersion :: nat where
  "taskHandleVersion = 1"

text \<open>\<open>err.Error()\<close>: the text of an error, as the logger prints it.\<close>

fun error_text :: "error \<Rightarrow> string" where
  "error_text (Error m) = m"
| "error_text (Recoverable m) = m"
| "error_text ErrTaskNotFound = ''task not found for given id''"
| "error_text (Panic m) = m"

fun is_Panic :: "error \<Rightarrow> bool" where
  "is_Panic (Panic m) = True"
| "is_Panic e = False"

text \<open>
  \<open>t.Round(d)\<close> of the package \<open>time\<close>, on a time given as its distance in
  nanoseconds from the zero time: the nearest multiple of \<open>d\<close>, a halfway value
  rounding up.
\<close>

definition time_Round :: "nat \<Rightarrow> nat \<Rightarrow> nat" where
  "time_Round t d = (if (t mod d) + (t mod d) < d then t - t mod d else t + (d - t mod d))"

definition Millisecond :: nat where
  "Millisecond = 1000000"

text \<open>The closure \<open>cleanup\<close> of StartTask.\<close>

definition cleanup :: "'st host \<Rightarrow> Container \<Rightarrow> World \<Rightarrow> World" where
  "cleanup env c s0 =
     (let s1 = (if lxc_Running env (lxc_trace s0) (c_name c) then
                  (case lxc env c Stop s0 of
                     (Some err, s) \<Rightarrow>
                       logger LError ''failed to Stop during clean up from an error in Start''
                         (Some err) s
                   | (None, s) \<Rightarrow> s)
                else s0)
      in case lxc env c Destroy s1 of
           (Some err, s) \<Rightarrow>
             logger LError ''failed to Destroy during clean up from an error in Start'' (Some err) s
         | (None, s) \<Rightarrow> s)"

text \<open>
  StartTask. The second component of the source's result, the driver network, is nil
  on every path and is left out. A panic inside \<open>mountVolumes\<close> leaves StartTask at
  once, without the call of \<open>cleanup\<close> that follows an error.
\<close>

definition StartTask ::
  "'st host \<Rightarrow> drivers_TaskConfig \<Rightarrow> Driver \<Rightarrow> World \<Rightarrow>
     (error + 'st drivers_TaskHandle) \<times> Driver \<times> World" where
  "StartTask env cfg d s0 =
     (case taskStore_Get (tasks d) (ID cfg) of
        Some h \<Rightarrow>
          (Inl (Error (''task with ID '' @ strconv_Quote env (ID cfg) @ '' already started'')),
           d, s0)
      | None \<Rightarrow>
     (case DecodeDriverConfig cfg of
        Inl err \<Rightarrow> (Inl (Error (''failed to decode driver config: '' @ err)), d, s0)
      | Inr driverConfig \<Rightarrow>
     (case initializeContainer env d cfg driverConfig
             (logger LInfo ''starting lxc task'' None
                (logger LInfo ''starting lxc task driver'' None s0)) of
        (Inl err, s1) \<Rightarrow>
          (Inl err, d, logger LError ''failed to initializeContainer'' (Some (error_text err)) s1)
      | (Inr c, s1) \<Rightarrow>
     (case lxc env c (Create (toLXCCreateOptions driverConfig)) s1 of
        (Some err, s2) \<Rightarrow> (Inl (Recoverable err), d, s2)
      | (None, s2) \<Rightarrow>
     (case configureContainerNetwork env d c driverConfig s2 of
        (Some err, s3) \<Rightarrow> (Inl err, d, cleanup env c s3)
      | (None, s3) \<Rightarrow>
     (case mountVolumes env d c cfg driverConfig s3 of
        (Some err, s4) \<Rightarrow>
          (if is_Panic err then (Inl err, d, s4)
           else (Inl err, d,
                 cleanup env c
                   (logger LError ''failed to mountVolumes'' (Some (error_text err)) s4)))
      | (None, s4) \<Rightarrow>
     (case lxc env c (StartExecute (Command driverConfig)) s4 of
        (Some err, s5) \<Rightarrow>
          (Inl (Error (''unable to start container: err '' @ err)), d, cleanup env c s5)
      | (None, s5) \<Rightarrow>
     (case setResourceLimits env c cfg s5 of
        (Some err, s6) \<Rightarrow> (Inl err, d, cleanup env c s6)
      | (None, s6) \<Rightarrow>
     (let h = \<lparr>th_container = c,
               th_initPid = lxc_InitPid env (lxc_trace s6) (c_name c),
               th_taskConfig = cfg,
               th_procState = TaskStateRunning,
               th_startedAt = time_Round (time_Now env) Millisecond,
               th_exitResult = None\<rparr>;
          driverState = \<lparr>TS_TaskConfig = cfg, ContainerName = c_name c,
                         StartedAt = th_startedAt h\<rparr>
      in case SetDriverState env driverState of
           Inl err \<Rightarrow>
             (Inl (Error (''failed to set driver state: '' @ err)), d,
              cleanup env c
                (logger LError ''failed to start task, error setting driver state'' (Some err) s6))
         | Inr st \<Rightarrow>
             (Inr \<lparr>H_Version = taskHandleVersion, H_Config = cfg, H_State = TaskStateUnknown,
                   H_DriverState = Some st\<rparr>,
              d\<lparr>tasks := taskStore_Set (tasks d) (ID cfg) h,
                 monitors := monitors d @ [ID cfg]\<rparr>,
              s6))))))))))"

section \<open>Recovering and destroying a task\<close>

text \<open>
  RecoverTask. The handle is \<open>None\<close> for the nil pointer. The exit result of the
  recovered handle is the zero value of \<open>drivers.ExitResult\<close>.
\<close>

definition RecoverTask ::
  "'st host \<Rightarrow> 'st drivers_TaskHandle option \<Rightarrow> Driver \<Rightarrow> World \<Rightarrow>
     error option \<times> Driver \<times> World" where
  "RecoverTask env handle d s0 =
     (let s1 = logger LInfo ''recover lxc task'' None s0
      in case handle of
           None \<Rightarrow> (Some (Error ''error: handle cannot be nil''), d, s1)
         | Some th \<Rightarrow>
             if H_Version th = 0 then recoverPre09Task env th d s1
             else
               (case taskStore_Get (tasks d) (ID (H_Config th)) of
                  Some h \<Rightarrow> (None, d, s1)
                | None \<Rightarrow>
               (case GetDriverState env (H_DriverState th) of
                  Inl err \<Rightarrow>
                    (Some (Error (''failed to decode task state from handle: '' @ err)), d, s1)
                | Inr taskState \<Rightarrow>
               (case lxc env \<lparr>c_name = ContainerName taskState, c_path = lxcPath env d\<rparr>
                       (NewContainer (lxcPath env d)) s1 of
                  (Some err, s2) \<Rightarrow>
                    (Some (Error (''failed to create container ref: '' @ err)), d, s2)
                | (None, s2) \<Rightarrow>
                    (None,
                     d\<lparr>tasks := taskStore_Set (tasks d) (ID (TS_TaskConfig taskState))
                                   \<lparr>th_container = \<lparr>c_name = ContainerName taskState,
                                                     c_path = lxcPath env d\<rparr>,
                                    th_initPid = lxc_InitPid env (lxc_trace s2)
                                                   (ContainerName taskState),
                                    th_taskConfig = TS_TaskConfig taskState,
                                    th_procState = TaskStateRunning,
                                    th_startedAt = StartedAt taskState,
                                    th_exitResult = Some (0, False, None)\<rparr>,
                        monitors := monitors d @ [ID (TS_TaskConfig taskState)]\<rparr>,
                     s2)))))"

text \<open>
  DestroyTask. The grace period handed to \<open>shutdown\<close> is one minute, in nanoseconds.
  The handle is a pointer in the source; what \<open>shutdown\<close> does to the handle is
  seen by the call of \<open>Destroy\<close> that follows, and the store entry that points to
  the handle is deleted at the end.
\<close>

definition DestroyTask ::
  "'st host \<Rightarrow> string \<Rightarrow> bool \<Rightarrow> Driver \<Rightarrow> World \<Rightarrow> error option \<times> Driver \<times> World" where
  "DestroyTask env taskID force d s0 =
     (let s1 = logger LInfo ''destory lxc task'' None s0
      in case taskStore_Get (tasks d) taskID of
           None \<Rightarrow> (Some ErrTaskNotFound, d, s1)
         | Some handle \<Rightarrow>
             if IsRunning env handle \<and> \<not> force then
               (Some (Error ''cannot destroy running task''), d,
                logger LInfo ''destroy lxc task'' None s1)
             else
               (case (if IsRunning env handle then
                        (case shutdown env handle 60000000000 (lxc_trace s1) of
                           (r, h', evs) \<Rightarrow>
                             (h',
                              (case r of
                                 Some err \<Rightarrow>
                                   logger LError ''failed to destroy executor'' (Some err)
                                     (logger LInfo ''destory lxc task'' None
                                        (s1\<lparr>lxc_trace := lxc_trace s1 @ evs\<rparr>))
                               | None \<Rightarrow> s1\<lparr>lxc_trace := lxc_trace s1 @ evs\<rparr>)))
                      else (handle, s1)) of
                  (handle2, s2) \<Rightarrow>
               (case lxc env (th_container handle2) Destroy
                       (logger LInfo ''Destroying container'' None s2) of
                  (r, s4) \<Rightarrow>
                    (None,
                     d\<lparr>tasks := taskStore_Delete (tasks d) taskID\<rparr>,
                     (case r of
                        Some err \<Rightarrow>
                          logger LError ''failed to destroy lxc container'' (Some err)
                            (logger LInfo ''destory lxc task'' None s4)
                      | None \<Rightarrow> s4)))))"

section \<open>A concrete host\<close>

text \<open>
  A host on which every call succeeds, used to run the model on concrete inputs. A
  container counts as running once it was started and until it is stopped. The task
  state is persisted as it is.
\<close>

text \<open>
  The relative path of the example host, computed element by element as the
  library's \<open>filepath.Rel\<close> does on Unix paths. \<open>Rel_loop\<close> takes the parts of \<open>base\<close> and \<open>targ\<close> from the indices
  \<open>b0\<close> and \<open>t0\<close> on and returns, for the moment the library's loop is left, the
  element \<open>base[b0:bi]\<close> and the parts of \<open>base\<close> and \<open>targ\<close> from \<open>b0\<close> and \<open>t0\<close> on.
\<close>

function Rel_loop :: "string \<Rightarrow> string \<Rightarrow> string \<times> string \<times> string" where
  "Rel_loop b t =
     (if b \<noteq> [] \<and> t \<noteq> [] then
        (if takeWhile (\<lambda>c. c \<noteq> CHR ''/'') t \<noteq> takeWhile (\<lambda>c. c \<noteq> CHR ''/'') b
         then (takeWhile (\<lambda>c. c \<noteq> CHR ''/'') b, b, t)
         else Rel_loop (drop 1 (dropWhile (\<lambda>c. c \<noteq> CHR ''/'') b))
                       (drop 1 (dropWhile (\<lambda>c. c \<noteq> CHR ''/'') t)))
      else ([], b, t))"
  by pat_completeness auto
termination
proof (relation "measure (\<lambda>(b, t). length b)")
  fix b t :: string
  assume "b \<noteq> [] \<and> t \<noteq> []"
  moreover have "length (dropWhile (\<lambda>c. c \<noteq> CHR ''/'') b) \<le> length b"
    by (rule length_dropWhile_le)
  ultimately show "((drop 1 (dropWhile (\<lambda>c. c \<noteq> CHR ''/'') b),
                     drop 1 (dropWhile (\<lambda>c. c \<noteq> CHR ''/'') t)), (b, t))
                   \<in> measure (\<lambda>(b, t). length b)"
    by (cases b) auto
qed simp

definition example_Rel :: "string \<Rightarrow> string \<Rightarrow> string + string" where
  "example_Rel basepath targpath =
     (let base = filepath_Clean basepath; targ = filepath_Clean targpath
      in if targ = base then Inr ''.''
         else
           let base = (if base = ''.'' then [] else base);
               baseSlashed = (base \<noteq> [] \<and> hd base = CHR ''/'');
               targSlashed = (targ \<noteq> [] \<and> hd targ = CHR ''/'')
           in if baseSlashed \<noteq> targSlashed
              then Inl (''Rel: can't make '' @ targpath @ '' relative to '' @ basepath)
              else
                (case Rel_loop base targ of
                   (belem, brest, trest) \<Rightarrow>
                     if belem = ''..''
                     then Inl (''Rel: can't make '' @ targpath @ '' relative to '' @ basepath)
                     else if brest \<noteq> [] then
                       Inr (''..'' @ concat (replicate (count_list brest CHR ''/'') ''/..'')
                              @ (if trest \<noteq> [] then ''/'' @ trest else []))
                     else Inr trest))"

definition is_StartExecute :: "lxc_op \<Rightarrow> bool" where
  "is_StartExecute op = (case op of StartExecute args \<Rightarrow> True | _ \<Rightarrow> False)"

definition example_host :: "TaskState host" where
  "example_host =
     \<lparr>lxc_fail = (\<lambda>tr c op. None),
      lxc_Running = (\<lambda>tr c. list_ex (\<lambda>e. fst e = c \<and> is_StartExecute (snd e)) tr
                               \<and> \<not> list_ex (\<lambda>e. e = (c, Stop)) tr),
      lxc_InitPid = (\<lambda>tr c. 4242),
      lxc_VersionAtLeast = (\<lambda>major minor micro. True),
      lxc_DefaultConfigPath = ''/var/lib/lxc'',
      filepath_Rel = example_Rel,
      os_Stat = (\<lambda>p. Inr True),
      DeviceFromPath = (\<lambda>p perms. Inr (''c 1:3 '' @ perms)),
      strconv_Quote = (\<lambda>x. [CHR 0x22] @ x @ [CHR 0x22]),
      SetDriverState = (\<lambda>ts. Inr ts),
      GetDriverState = (\<lambda>st. case st of None \<Rightarrow> Inl ''no driver state'' | Some ts \<Rightarrow> Inr ts),
      time_Now = 1700000000123456789,
      recoverPre09Task = (\<lambda>h d s. (Some (Error ''pre-0.9 handles are not supported''), d, s)),
      IsRunning = (\<lambda>h. th_procState h = TaskStateRunning),
      shutdown = (\<lambda>h timeout tr.
                    (None, h\<lparr>th_procState := TaskStateExited\<rparr>, [(c_name (th_container h), Stop)]))\<rparr>"

definition example_Config :: Config where
  "example_Config =
     \<lparr>Config_Enabled = True, Config_AllowVolumes = False,
      Config_DefaultConfig = ''/etc/lxc/default.conf'', Config_LXCPath = [],
      Config_NetworkMode = ''bridge'', Config_GC_Container = True\<rparr>"

definition example_Driver :: Driver where
  "example_Driver = \<lparr>config = example_Config, tasks = Map.empty, monitors = []\<rparr>"

definition example_World :: World where
  "example_World = \<lparr>lxc_trace = [], logs = []\<rparr>"

definition example_TaskConfig :: TaskConfig where
  "example_TaskConfig =
     \<lparr>Template = ''/usr/share/lxc/templates/lxc-busybox'', Distro = [], Release = [],
      Arch = [], ImageVariant = [], ImageServer = [], GPGKeyID = [], GPGKeyServer = [],
      DisableGPGValidation = False, FlushCache = False, ForceCache = False,
      TemplateArgs = [], LogLevel = [], Verbosity = [], Volumes = [], NetworkMode = [],
      DefaultConfig = [], Command = [''/bin/sleep'', ''600''], Environment = [],
      Cgroup = [], PortMap = []\<rparr>"

definition example_cfg :: drivers_TaskConfig where
  "example_cfg =
     \<lparr>ID = ''a1/web'', Name = ''web'', AllocID = ''a1'', Env = [(''PORT'', ''8080'')],
      MemoryMB = 256, CPUShares = 512, Mounts = [], Devices = [],
      TaskDir = \<lparr>Dir = ''/alloc/a1/web'', LocalDir = ''/alloc/a1/web/local'',
                 SharedAllocDir = ''/alloc/a1/alloc'', SecretsDir = ''/alloc/a1/web/secrets''\<rparr>,
      DecodeDriverConfig = Inr example_TaskConfig\<rparr>"

definition example_Container :: Container where
  "example_Container = \<lparr>c_name = ''web-a1'', c_path = ''/var/lib/lxc''\<rparr>"

definition example_taskHandle :: taskHandle where
  "example_taskHandle =
     \<lparr>th_container = example_Container, th_initPid = 4242, th_taskConfig = example_cfg,
      th_procState = TaskStateRunning, th_startedAt = 1700000000123000000,
      th_exitResult = None\<rparr>"

text \<open>A host like the example host on which the runtime refuses to destroy a container.\<close>

definition example_host_no_destroy :: "TaskState host" where
  "example_host_no_destroy =
     example_host\<lparr>lxc_fail := (\<lambda>tr c op. if op = Destroy then Some ''container is busy'' else None)\<rparr>"


section \<open>Network configuration: properties\<close>

lemma configureContainerNetwork_host:
  assumes "(if NetworkMode tc = [] then Config_NetworkMode (config d) else NetworkMode tc) = ''host''"
  shows "configureContainerNetwork env d c tc s =
     (case lxc_fail env (lxc_trace s) (c_name c)
             (SetConfigItem (networkTypeConfigPrefix env @ ''type'') ''none'') of
        Some err \<Rightarrow> Some (Error (''error setting network type configuration 'none': '' @ err))
      | None \<Rightarrow> None,
      s\<lparr>lxc_trace := lxc_trace s @
           [(c_name c, SetConfigItem (networkTypeConfigPrefix env @ ''type'') ''none'')]\<rparr>)"
  using assms unfolding configureContainerNetwork_def Let_def lxc_def
  by (simp split: option.split)

lemma configureContainerNetwork_other:
  assumes "(if NetworkMode tc = [] then Config_NetworkMode (config d) else NetworkMode tc) \<noteq> ''host''"
    and "(if NetworkMode tc = [] then Config_NetworkMode (config d) else NetworkMode tc) \<noteq> ''bridge''"
  shows "configureContainerNetwork env d c tc s = (Some (Error ''Network mode is undefined''), s)"
  using assms unfolding configureContainerNetwork_def Let_def
  by simp

lemma configureContainerNetwork_bridge:
  assumes "(if NetworkMode tc = [] then Config_NetworkMode (config d) else NetworkMode tc) = ''bridge''"
  shows "configureContainerNetwork env d c tc s =
     (case lxc_fail env (lxc_trace s) (c_name c)
             (SetConfigItem (networkTypeConfigPrefix env @ ''type'') ''veth'') of
        Some err \<Rightarrow>
          (Some (Error (''error setting network type configuration 'veth': '' @ err)),
           s\<lparr>lxc_trace := lxc_trace s @
                [(c_name c, SetConfigItem (networkTypeConfigPrefix env @ ''type'') ''veth'')]\<rparr>)
      | None \<Rightarrow>
     (case lxc_fail env
             (lxc_trace s @ [(c_name c, SetConfigItem (networkTypeConfigPrefix env @ ''type'') ''veth'')])
             (c_name c) (SetConfigItem (networkTypeConfigPrefix env @ ''link'') ''lxcbr0'') of
        Some err \<Rightarrow>
          (Some (Error (''error setting network link configuration: '' @ err)),
           s\<lparr>lxc_trace := lxc_trace s @
                [(c_name c, SetConfigItem (networkTypeConfigPrefix env @ ''type'') ''veth''),
                 (c_name c, SetConfigItem (networkTypeConfigPrefix env @ ''link'') ''lxcbr0'')]\<rparr>)
      | None \<Rightarrow>
          (case lxc_fail env
                  (lxc_trace s @
                     [(c_name c, SetConfigItem (networkTypeConfigPrefix env @ ''type'') ''veth''),
                      (c_name c, SetConfigItem (networkTypeConfigPrefix env @ ''link'') ''lxcbr0'')])
                  (c_name c) (SetConfigItem (networkTypeConfigPrefix env @ ''flags'') ''up'') of
             Some err \<Rightarrow> Some (Error (''error setting network flags configuration: '' @ err))
           | None \<Rightarrow> None,
           s\<lparr>lxc_trace := lxc_trace s @
                [(c_name c, SetConfigItem (networkTypeConfigPrefix env @ ''type'') ''veth''),
                 (c_name c, SetConfigItem (networkTypeConfigPrefix env @ ''link'') ''lxcbr0''),
                 (c_name c, SetConfigItem (networkTypeConfigPrefix env @ ''flags'') ''up'')]\<rparr>)))"
  using assms unfolding configureContainerNetwork_def Let_def lxc_def
  by (simp split: option.split)

text \<open>
  C5. \<open>configureContainerNetwork\<close> resolves the mode as the task-level value when that
  is not empty and as the driver-level default otherwise, and its result and the
  world it leaves are these, for every runtime.

  For the mode "host" it issues exactly one directive, the network type "none"; it
  returns no error when the runtime accepts the directive and the error of the "none"
  type otherwise.

  For the mode "bridge" it issues the type "veth"; when that is accepted, the link
  "lxcbr0"; when that is accepted, the flags "up". It returns no error when all three
  are accepted, and then all three have been issued in this order; when one is
  refused it stops there and returns the error of that directive.

  For any other mode, the empty string included, it returns the error "Network mode
  is undefined" and issues no directive: the world is unchanged.
\<close>

theorem configureContainerNetwork_modes:
  "let mode = (if NetworkMode tc = [] then Config_NetworkMode (config d) else NetworkMode tc);
       p = networkTypeConfigPrefix env;
       n = c_name c;
       tr = lxc_trace s;
       none = (n, SetConfigItem (p @ ''type'') ''none'');
       veth = (n, SetConfigItem (p @ ''type'') ''veth'');
       link = (n, SetConfigItem (p @ ''link'') ''lxcbr0'');
       flags = (n, SetConfigItem (p @ ''flags'') ''up'');
       res = configureContainerNetwork env d c tc s
   in (mode = ''host'' \<longrightarrow>
         res = (case lxc_fail env tr n (snd none) of
                  Some err \<Rightarrow>
                    Some (Error (''error setting network type configuration 'none': '' @ err))
                | None \<Rightarrow> None,
                s\<lparr>lxc_trace := tr @ [none]\<rparr>)) \<and>
      (mode = ''bridge'' \<longrightarrow>
         res = (case lxc_fail env tr n (snd veth) of
                  Some err \<Rightarrow>
                    (Some (Error (''error setting network type configuration 'veth': '' @ err)),
                     s\<lparr>lxc_trace := tr @ [veth]\<rparr>)
                | None \<Rightarrow>
                    (case lxc_fail env (tr @ [veth]) n (snd link) of
                       Some err \<Rightarrow>
                         (Some (Error (''error setting network link configuration: '' @ err)),
                          s\<lparr>lxc_trace := tr @ [veth, link]\<rparr>)
                     | None \<Rightarrow>
                         (case lxc_fail env (tr @ [veth, link]) n (snd flags) of
                            Some err \<Rightarrow>
                              Some (Error (''error setting network flags configuration: '' @ err))
                          | None \<Rightarrow> None,
                          s\<lparr>lxc_trace := tr @ [veth, link, flags]\<rparr>)))) \<and>
      (mode \<noteq> ''host'' \<and> mode \<noteq> ''bridge'' \<longrightarrow>
         res = (Some (Error ''Network mode is undefined''), s))"
proof -
  let ?mode = "if NetworkMode tc = [] then Config_NetworkMode (config d) else NetworkMode tc"
  have h: "?mode = ''host'' \<longrightarrow>
      configureContainerNetwork env d c tc s =
        (case lxc_fail env (lxc_trace s) (c_name c)
                (SetConfigItem (networkTypeConfigPrefix env @ ''type'') ''none'') of
           Some err \<Rightarrow> Some (Error (''error setting network type configuration 'none': '' @ err))
         | None \<Rightarrow> None,
         s\<lparr>lxc_trace := lxc_trace s @
              [(c_name c, SetConfigItem (networkTypeConfigPrefix env @ ''type'') ''none'')]\<rparr>)"
    using configureContainerNetwork_host [of tc d env c s] by blast
  have b: "?mode = ''bridge'' \<longrightarrow>
      configureContainerNetwork env d c tc s =
     (case lxc_fail env (lxc_trace s) (c_name c)
             (SetConfigItem (networkTypeConfigPrefix env @ ''type'') ''veth'') of
        Some err \<Rightarrow>
          (Some (Error (''error setting network type configuration 'veth': '' @ err)),
           s\<lparr>lxc_trace := lxc_trace s @
                [(c_name c, SetConfigItem (networkTypeConfigPrefix env @ ''type'') ''veth'')]\<rparr>)
      | None \<Rightarrow>
     (case lxc_fail env
             (lxc_trace s @ [(c_name c, SetConfigItem (networkTypeConfigPrefix env @ ''type'') ''veth'')])
             (c_name c) (SetConfigItem (networkTypeConfigPrefix env @ ''link'') ''lxcbr0'') of
        Some err \<Rightarrow>
          (Some (Error (''error setting network link configuration: '' @ err)),
           s\<lparr>lxc_trace := lxc_trace s @
                [(c_name c, SetConfigItem (networkTypeConfigPrefix env @ ''type'') ''veth''),
                 (c_name c, SetConfigItem (networkTypeConfigPrefix env @ ''link'') ''lxcbr0'')]\<rparr>)
      | None \<Rightarrow>
          (case lxc_fail env
                  (lxc_trace s @
                     [(c_name c, SetConfigItem (networkTypeConfigPrefix env @ ''type'') ''veth''),
                      (c_name c, SetConfigItem (networkTypeConfigPrefix env @ ''link'') ''lxcbr0'')])
                  (c_name c) (SetConfigItem (networkTypeConfigPrefix env @ ''flags'') ''up'') of
             Some err \<Rightarrow> Some (Error (''error setting network flags configuration: '' @ err))
           | None \<Rightarrow> None,
           s\<lparr>lxc_trace := lxc_trace s @
                [(c_name c, SetConfigItem (networkTypeConfigPrefix env @ ''type'') ''veth''),
                 (c_name c, SetConfigItem (networkTypeConfigPrefix env @ ''link'') ''lxcbr0''),
                 (c_name c, SetConfigItem (networkTypeConfigPrefix env @ ''flags'') ''up'')]\<rparr>)))"
    using configureContainerNetwork_bridge [of tc d env c s] by blast
  have o: "?mode \<noteq> ''host'' \<and> ?mode \<noteq> ''bridge'' \<longrightarrow>
      configureContainerNetwork env d c tc s = (Some (Error ''Network mode is undefined''), s)"
    using configureContainerNetwork_other [of tc d env c s] by blast
  show ?thesis
    unfolding Let_def snd_conv
    using h b o by (intro conjI)
qed

lemma example_prefix: "networkTypeConfigPrefix example_host = ''lxc.net.0.''"
  by (simp add: networkTypeConfigPrefix_def example_host_def)

theorem configureContainerNetwork_modes_witness:
  "configureContainerNetwork example_host example_Driver example_Container
       (example_TaskConfig\<lparr>NetworkMode := ''host''\<rparr>) example_World =
     (None, \<lparr>lxc_trace = [(''web-a1'', SetConfigItem ''lxc.net.0.type'' ''none'')], logs = []\<rparr>) \<and>
   configureContainerNetwork example_host example_Driver example_Container example_TaskConfig
       example_World =
     (None, \<lparr>lxc_trace = [(''web-a1'', SetConfigItem ''lxc.net.0.type'' ''veth''),
                           (''web-a1'', SetConfigItem ''lxc.net.0.link'' ''lxcbr0''),
                           (''web-a1'', SetConfigItem ''lxc.net.0.flags'' ''up'')],
             logs = []\<rparr>) \<and>
   configureContainerNetwork
       (example_host\<lparr>lxc_fail :=
          (\<lambda>tr c op. if op = SetConfigItem ''lxc.net.0.link'' ''lxcbr0'' then Some ''no bridge''
                      else None)\<rparr>)
       example_Driver example_Container example_TaskConfig example_World =
     (Some (Error ''error setting network link configuration: no bridge''),
      \<lparr>lxc_trace = [(''web-a1'', SetConfigItem ''lxc.net.0.type'' ''veth''),
                     (''web-a1'', SetConfigItem ''lxc.net.0.link'' ''lxcbr0'')],
       logs = []\<rparr>) \<and>
   configureContainerNetwork example_host example_Driver example_Container
       (example_TaskConfig\<lparr>NetworkMode := ''none''\<rparr>) example_World =
     (Some (Error ''Network mode is undefined''), example_World)"
proof -
  have p: "networkTypeConfigPrefix
             (example_host\<lparr>lxc_fail :=
                (\<lambda>tr c op. if op = SetConfigItem ''lxc.net.0.link'' ''lxcbr0'' then Some ''no bridge''
                            else None)\<rparr>) = ''lxc.net.0.''"
    by (simp add: networkTypeConfigPrefix_def example_host_def)
  have f: "\<And>tr c op. lxc_fail example_host tr c op = None"
    by (simp add: example_host_def)
  have m: "NetworkMode example_TaskConfig = []" "Config_NetworkMode (config example_Driver) = ''bridge''"
    by (simp_all add: example_TaskConfig_def example_Driver_def example_Config_def)
  from configureContainerNetwork_modes
         [of "example_TaskConfig\<lparr>NetworkMode := ''host''\<rparr>" example_Driver example_host
             example_Container example_World]
       configureContainerNetwork_modes
         [of example_TaskConfig example_Driver example_host example_Container example_World]
       configureContainerNetwork_modes
         [of example_TaskConfig example_Driver
             "example_host\<lparr>lxc_fail :=
                (\<lambda>tr c op. if op = SetConfigItem ''lxc.net.0.link'' ''lxcbr0'' then Some ''no bridge''
                            else None)\<rparr>"
             example_Container example_World]
       configureContainerNetwork_modes
         [of "example_TaskConfig\<lparr>NetworkMode := ''none''\<rparr>" example_Driver example_host
             example_Container example_World]
  show ?thesis
    by (simp add: Let_def example_prefix p f m example_World_def example_Container_def)
qed

section \<open>Container initialization: properties\<close>

lemma verbosityLevels_None: "verbosityLevels x = None \<longleftrightarrow> x \<notin> {[], ''quiet'', ''verbose''}"
  unfolding verbosityLevels_def by simp

lemma verbosityLevels_Some:
  "x \<in> {[], ''quiet'', ''verbose''} \<Longrightarrow>
   verbosityLevels x = Some (if x = ''verbose'' then Verbose else Quiet)"
  unfolding verbosityLevels_def by auto

lemma logLevels_None:
  "logLevels x = None \<longleftrightarrow> x \<notin> {[], ''trace'', ''debug'', ''info'', ''warn'', ''error''}"
  unfolding logLevels_def by simp

lemma logLevels_Some:
  "x \<in> {[], ''trace'', ''debug'', ''info'', ''warn'', ''error''} \<Longrightarrow>
   logLevels x = Some (if x = ''trace'' then TRACE else if x = ''debug'' then DEBUG
                       else if x = ''info'' then INFO else if x = ''warn'' then WARN else ERROR)"
  unfolding logLevels_def by auto

lemma initializeContainer_environment_eq:
  "initializeContainer_environment env c es s =
     s\<lparr>lxc_trace := lxc_trace s @ map (\<lambda>e. (c_name c, SetConfigItem ''lxc.environment'' e)) es\<rparr>"
  by (induction es arbitrary: s) (simp_all add: lxc_def)


lemma initializeContainer_bad_verbosity:
  assumes "lxc_fail env (lxc_trace s) (Name cfg @ ''-'' @ AllocID cfg) (NewContainer (lxcPath env d)) = None"
    and "verbosityLevels (Verbosity tc) = None"
  shows "fst (initializeContainer env d cfg tc s) =
           Inl (Error ''lxc driver config 'verbosity' can only be either quiet or verbose'')"
    and "lxc_trace (snd (initializeContainer env d cfg tc s)) =
           lxc_trace s @ [(Name cfg @ ''-'' @ AllocID cfg, NewContainer (lxcPath env d))]"
  using assms unfolding initializeContainer_def Let_def lxc_def logger_def
  by simp_all

lemma initializeContainer_bad_log_level:
  assumes "lxc_fail env (lxc_trace s) (Name cfg @ ''-'' @ AllocID cfg) (NewContainer (lxcPath env d)) = None"
    and "verbosityLevels (Verbosity tc) = Some v"
    and "logLevels (LogLevel tc) = None"
  shows "fst (initializeContainer env d cfg tc s) =
           Inl (Error ''lxc driver config 'log_level' can only be trace, debug, info, warn or error'')"
    and "lxc_trace (snd (initializeContainer env d cfg tc s)) =
           lxc_trace s @ [(Name cfg @ ''-'' @ AllocID cfg, NewContainer (lxcPath env d)),
                          (Name cfg @ ''-'' @ AllocID cfg, SetVerbosity v)]"
  using assms unfolding initializeContainer_def Let_def lxc_def logger_def
  by simp_all

lemma initializeContainer_valid:
  assumes "lxc_fail env (lxc_trace s) (Name cfg @ ''-'' @ AllocID cfg) (NewContainer (lxcPath env d)) = None"
    and "verbosityLevels (Verbosity tc) = Some v"
    and "logLevels (LogLevel tc) = Some l"
  shows "fst (initializeContainer env d cfg tc s) =
     (case lxc_fail env
             (lxc_trace s @ [(Name cfg @ ''-'' @ AllocID cfg, NewContainer (lxcPath env d)),
                             (Name cfg @ ''-'' @ AllocID cfg, SetVerbosity v)])
             (Name cfg @ ''-'' @ AllocID cfg) (SetLogLevel l) of
        Some err \<Rightarrow> Inl (Error err)
      | None \<Rightarrow>
          (case lxc_fail env
                  (lxc_trace s @ [(Name cfg @ ''-'' @ AllocID cfg, NewContainer (lxcPath env d)),
                                  (Name cfg @ ''-'' @ AllocID cfg, SetVerbosity v),
                                  (Name cfg @ ''-'' @ AllocID cfg, SetLogLevel l)])
                  (Name cfg @ ''-'' @ AllocID cfg)
                  (SetLogFile (filepath_Join [Dir (TaskDir cfg), Name cfg @ ''-lxc.log''])) of
             Some err \<Rightarrow> Inl (Error err)
           | None \<Rightarrow> Inr \<lparr>c_name = Name cfg @ ''-'' @ AllocID cfg, c_path = lxcPath env d\<rparr>))"
  using assms unfolding initializeContainer_def Let_def lxc_def logger_def
  by (simp split: option.split)

lemma initializeContainer_new_failed:
  assumes "lxc_fail env (lxc_trace s) (Name cfg @ ''-'' @ AllocID cfg) (NewContainer (lxcPath env d)) = Some err"
  shows "fst (initializeContainer env d cfg tc s) = Inl (Error (''failed to initialize container: '' @ err))"
    and "lxc_trace (snd (initializeContainer env d cfg tc s)) =
           lxc_trace s @ [(Name cfg @ ''-'' @ AllocID cfg, NewContainer (lxcPath env d))]"
  using assms unfolding initializeContainer_def Let_def lxc_def logger_def
  by simp_all

lemma initializeContainer_ok:
  assumes "lxc_fail env (lxc_trace s) (Name cfg @ ''-'' @ AllocID cfg) (NewContainer (lxcPath env d)) = None"
    and "verbosityLevels (Verbosity tc) = Some v"
    and "logLevels (LogLevel tc) = Some l"
    and "lxc_fail env
             (lxc_trace s @ [(Name cfg @ ''-'' @ AllocID cfg, NewContainer (lxcPath env d)),
                             (Name cfg @ ''-'' @ AllocID cfg, SetVerbosity v)])
             (Name cfg @ ''-'' @ AllocID cfg) (SetLogLevel l) = None"
    and "lxc_fail env
             (lxc_trace s @ [(Name cfg @ ''-'' @ AllocID cfg, NewContainer (lxcPath env d)),
                             (Name cfg @ ''-'' @ AllocID cfg, SetVerbosity v),
                             (Name cfg @ ''-'' @ AllocID cfg, SetLogLevel l)])
             (Name cfg @ ''-'' @ AllocID cfg)
             (SetLogFile (filepath_Join [Dir (TaskDir cfg), Name cfg @ ''-lxc.log''])) = None"
  shows "lxc_trace (snd (initializeContainer env d cfg tc s)) =
             lxc_trace s @
             map (Pair (Name cfg @ ''-'' @ AllocID cfg))
               ([NewContainer (lxcPath env d), SetVerbosity v, SetLogLevel l,
                 SetLogFile (filepath_Join [Dir (TaskDir cfg), Name cfg @ ''-lxc.log'']),
                 SetConfigItem ''lxc.cgroup.dir'' (Cgroup tc)]
                @ map (SetConfigItem ''lxc.environment'')
                    (Environment tc @ map (\<lambda>(key, val). key @ ''='' @ val) (Env cfg))
                @ [LoadConfigFile (if DefaultConfig tc = [] then Config_DefaultConfig (config d)
                                   else DefaultConfig tc)])"
  using assms unfolding initializeContainer_def Let_def lxc_def logger_def initializeContainer_environment_eq
  by (simp split: option.split add: comp_def)

lemma initializeContainer_success:
  assumes "fst (initializeContainer env d cfg tc s) = Inr c"
  shows "c = \<lparr>c_name = Name cfg @ ''-'' @ AllocID cfg, c_path = lxcPath env d\<rparr>"
    and "\<exists>v l. verbosityLevels (Verbosity tc) = Some v \<and> logLevels (LogLevel tc) = Some l \<and>
           lxc_trace (snd (initializeContainer env d cfg tc s)) =
             lxc_trace s @
             map (Pair (Name cfg @ ''-'' @ AllocID cfg))
               ([NewContainer (lxcPath env d), SetVerbosity v, SetLogLevel l,
                 SetLogFile (filepath_Join [Dir (TaskDir cfg), Name cfg @ ''-lxc.log'']),
                 SetConfigItem ''lxc.cgroup.dir'' (Cgroup tc)]
                @ map (SetConfigItem ''lxc.environment'')
                    (Environment tc @ map (\<lambda>(key, val). key @ ''='' @ val) (Env cfg))
                @ [LoadConfigFile (if DefaultConfig tc = [] then Config_DefaultConfig (config d)
                                   else DefaultConfig tc)])"
proof -
  let ?n = "Name cfg @ ''-'' @ AllocID cfg"
  have new: "lxc_fail env (lxc_trace s) ?n (NewContainer (lxcPath env d)) = None"
  proof (cases "lxc_fail env (lxc_trace s) ?n (NewContainer (lxcPath env d))")
    case (Some err)
    from initializeContainer_new_failed(1) [OF Some, of tc] assms show ?thesis by simp
  qed simp
  obtain v where v: "verbosityLevels (Verbosity tc) = Some v"
  proof (cases "verbosityLevels (Verbosity tc)")
    case None
    from initializeContainer_bad_verbosity(1) [OF new None] assms show ?thesis by simp
  qed simp
  obtain l where l: "logLevels (LogLevel tc) = Some l"
  proof (cases "logLevels (LogLevel tc)")
    case None
    from initializeContainer_bad_log_level(1) [OF new v None] assms show ?thesis by simp
  qed simp
  note valid = initializeContainer_valid [OF new v l]
  have sl: "lxc_fail env (lxc_trace s @ [(?n, NewContainer (lxcPath env d)), (?n, SetVerbosity v)])
              ?n (SetLogLevel l) = None"
    using valid assms by (simp split: option.splits)
  have sf: "lxc_fail env (lxc_trace s @ [(?n, NewContainer (lxcPath env d)), (?n, SetVerbosity v),
                                         (?n, SetLogLevel l)])
              ?n (SetLogFile (filepath_Join [Dir (TaskDir cfg), Name cfg @ ''-lxc.log''])) = None"
    using valid assms sl by (simp split: option.splits)
  show "c = \<lparr>c_name = ?n, c_path = lxcPath env d\<rparr>"
    using valid assms sl sf by simp
  show "\<exists>v l. verbosityLevels (Verbosity tc) = Some v \<and> logLevels (LogLevel tc) = Some l \<and>
           lxc_trace (snd (initializeContainer env d cfg tc s)) =
             lxc_trace s @
             map (Pair ?n)
               ([NewContainer (lxcPath env d), SetVerbosity v, SetLogLevel l,
                 SetLogFile (filepath_Join [Dir (TaskDir cfg), Name cfg @ ''-lxc.log'']),
                 SetConfigItem ''lxc.cgroup.dir'' (Cgroup tc)]
                @ map (SetConfigItem ''lxc.environment'')
                    (Environment tc @ map (\<lambda>(key, val). key @ ''='' @ val) (Env cfg))
                @ [LoadConfigFile (if DefaultConfig tc = [] then Config_DefaultConfig (config d)
                                   else DefaultConfig tc)])"
    using initializeContainer_ok [OF new v l sl sf] v l by blast
qed


lemma initializeContainer_log_level_refused:
  assumes "lxc_fail env (lxc_trace s) (Name cfg @ ''-'' @ AllocID cfg) (NewContainer (lxcPath env d)) = None"
    and "verbosityLevels (Verbosity tc) = Some v"
    and "logLevels (LogLevel tc) = Some l"
    and "lxc_fail env
             (lxc_trace s @ [(Name cfg @ ''-'' @ AllocID cfg, NewContainer (lxcPath env d)),
                             (Name cfg @ ''-'' @ AllocID cfg, SetVerbosity v)])
             (Name cfg @ ''-'' @ AllocID cfg) (SetLogLevel l) = Some err"
  shows "lxc_trace (snd (initializeContainer env d cfg tc s)) =
           lxc_trace s @ [(Name cfg @ ''-'' @ AllocID cfg, NewContainer (lxcPath env d)),
                          (Name cfg @ ''-'' @ AllocID cfg, SetVerbosity v),
                          (Name cfg @ ''-'' @ AllocID cfg, SetLogLevel l)]"
  using assms unfolding initializeContainer_def Let_def lxc_def logger_def
  by simp

lemma initializeContainer_log_file_refused:
  assumes "lxc_fail env (lxc_trace s) (Name cfg @ ''-'' @ AllocID cfg) (NewContainer (lxcPath env d)) = None"
    and "verbosityLevels (Verbosity tc) = Some v"
    and "logLevels (LogLevel tc) = Some l"
    and "lxc_fail env
             (lxc_trace s @ [(Name cfg @ ''-'' @ AllocID cfg, NewContainer (lxcPath env d)),
                             (Name cfg @ ''-'' @ AllocID cfg, SetVerbosity v)])
             (Name cfg @ ''-'' @ AllocID cfg) (SetLogLevel l) = None"
    and "lxc_fail env
             (lxc_trace s @ [(Name cfg @ ''-'' @ AllocID cfg, NewContainer (lxcPath env d)),
                             (Name cfg @ ''-'' @ AllocID cfg, SetVerbosity v),
                             (Name cfg @ ''-'' @ AllocID cfg, SetLogLevel l)])
             (Name cfg @ ''-'' @ AllocID cfg)
             (SetLogFile (filepath_Join [Dir (TaskDir cfg), Name cfg @ ''-lxc.log''])) = Some err"
  shows "lxc_trace (snd (initializeContainer env d cfg tc s)) =
           lxc_trace s @ [(Name cfg @ ''-'' @ AllocID cfg, NewContainer (lxcPath env d)),
                          (Name cfg @ ''-'' @ AllocID cfg, SetVerbosity v),
                          (Name cfg @ ''-'' @ AllocID cfg, SetLogLevel l),
                          (Name cfg @ ''-'' @ AllocID cfg,
                           SetLogFile (filepath_Join [Dir (TaskDir cfg), Name cfg @ ''-lxc.log'']))]"
  using assms unfolding initializeContainer_def Let_def lxc_def logger_def
  by simp

lemma initializeContainer_valid_trace:
  assumes new: "lxc_fail env (lxc_trace s) (Name cfg @ ''-'' @ AllocID cfg) (NewContainer (lxcPath env d)) = None"
    and v: "verbosityLevels (Verbosity tc) = Some v"
    and l: "logLevels (LogLevel tc) = Some l"
  shows "take 3 (drop (length (lxc_trace s)) (lxc_trace (snd (initializeContainer env d cfg tc s)))) =
           [(Name cfg @ ''-'' @ AllocID cfg, NewContainer (lxcPath env d)),
            (Name cfg @ ''-'' @ AllocID cfg, SetVerbosity v),
            (Name cfg @ ''-'' @ AllocID cfg, SetLogLevel l)]"
proof (cases "lxc_fail env
             (lxc_trace s @ [(Name cfg @ ''-'' @ AllocID cfg, NewContainer (lxcPath env d)),
                             (Name cfg @ ''-'' @ AllocID cfg, SetVerbosity v)])
             (Name cfg @ ''-'' @ AllocID cfg) (SetLogLevel l)")
  case (Some err)
  show ?thesis
    by (simp only: initializeContainer_log_level_refused [OF new v l Some]) simp
next
  case sl: None
  show ?thesis
  proof (cases "lxc_fail env
             (lxc_trace s @ [(Name cfg @ ''-'' @ AllocID cfg, NewContainer (lxcPath env d)),
                             (Name cfg @ ''-'' @ AllocID cfg, SetVerbosity v),
                             (Name cfg @ ''-'' @ AllocID cfg, SetLogLevel l)])
             (Name cfg @ ''-'' @ AllocID cfg)
             (SetLogFile (filepath_Join [Dir (TaskDir cfg), Name cfg @ ''-lxc.log'']))")
    case (Some err)
    show ?thesis
      by (simp only: initializeContainer_log_file_refused [OF new v l sl Some]) simp
  next
    case None
    show ?thesis
      by (simp only: initializeContainer_ok [OF new v l sl None]) simp
  qed
qed

lemma example_initializeContainer:
  "initializeContainer example_host example_Driver example_cfg example_TaskConfig example_World =
     (Inr \<lparr>c_name = ''web-a1'', c_path = ''/var/lib/lxc''\<rparr>,
      \<lparr>lxc_trace =
         [(''web-a1'', NewContainer ''/var/lib/lxc''),
          (''web-a1'', SetVerbosity Quiet),
          (''web-a1'', SetLogLevel ERROR),
          (''web-a1'', SetLogFile ''/alloc/a1/web/web-lxc.log''),
          (''web-a1'', SetConfigItem ''lxc.cgroup.dir'' []),
          (''web-a1'', SetConfigItem ''lxc.environment'' ''PORT=8080''),
          (''web-a1'', LoadConfigFile ''/etc/lxc/default.conf'')],
       logs = [(LInfo, ''NewContainer'', None), (LInfo, ''Done initializeContainer'', None)]\<rparr>)"
  by (simp add: initializeContainer_def lxc_def logger_def example_host_def example_cfg_def
        example_TaskConfig_def example_World_def example_Driver_def example_Config_def lxcPath_def
        verbosityLevels_def logLevels_def filepath_Join.simps filepath_Clean_def)

text \<open>
  C7, as the source has it. Provided the runtime hands out the container object,
  \<open>initializeContainer\<close> returns the verbosity error when the verbosity is none of the
  empty string, "quiet" and "verbose", and the log-level error when the verbosity is
  one of these and the log level is none of the empty string, "trace", "debug", "info",
  "warn" and "error". Otherwise both values are handed to the runtime in its own
  representation (the empty string as \<open>Quiet\<close> and as \<open>ERROR\<close>), and the result is the
  container, or the error of the runtime when it refuses the log level or the log file.
\<close>

theorem initializeContainer_validation:
  assumes "lxc_fail env (lxc_trace s) (Name cfg @ ''-'' @ AllocID cfg) (NewContainer (lxcPath env d)) = None"
  shows
    "(Verbosity tc \<notin> {[], ''quiet'', ''verbose''} \<longrightarrow>
        fst (initializeContainer env d cfg tc s) =
          Inl (Error ''lxc driver config 'verbosity' can only be either quiet or verbose'')) \<and>
     (Verbosity tc \<in> {[], ''quiet'', ''verbose''} \<and>
      LogLevel tc \<notin> {[], ''trace'', ''debug'', ''info'', ''warn'', ''error''} \<longrightarrow>
        fst (initializeContainer env d cfg tc s) =
          Inl (Error ''lxc driver config 'log_level' can only be trace, debug, info, warn or error'')) \<and>
     (Verbosity tc \<in> {[], ''quiet'', ''verbose''} \<and>
      LogLevel tc \<in> {[], ''trace'', ''debug'', ''info'', ''warn'', ''error''} \<longrightarrow>
        (let n = Name cfg @ ''-'' @ AllocID cfg;
             v = (if Verbosity tc = ''verbose'' then Verbose else Quiet);
             l = (if LogLevel tc = ''trace'' then TRACE else if LogLevel tc = ''debug'' then DEBUG
                  else if LogLevel tc = ''info'' then INFO else if LogLevel tc = ''warn'' then WARN
                  else ERROR);
             calls = [(n, NewContainer (lxcPath env d)), (n, SetVerbosity v), (n, SetLogLevel l)]
         in take 3 (drop (length (lxc_trace s)) (lxc_trace (snd (initializeContainer env d cfg tc s))))
              = calls \<and>
            fst (initializeContainer env d cfg tc s) =
              (case lxc_fail env (lxc_trace s @ take 2 calls) n (SetLogLevel l) of
                 Some err \<Rightarrow> Inl (Error err)
               | None \<Rightarrow>
                   (case lxc_fail env (lxc_trace s @ calls) n
                           (SetLogFile (filepath_Join [Dir (TaskDir cfg), Name cfg @ ''-lxc.log''])) of
                      Some err \<Rightarrow> Inl (Error err)
                    | None \<Rightarrow> Inr \<lparr>c_name = n, c_path = lxcPath env d\<rparr>))))"
proof (intro conjI impI)
  assume "Verbosity tc \<notin> {[], ''quiet'', ''verbose''}"
  then have "verbosityLevels (Verbosity tc) = None"
    by (simp add: verbosityLevels_None)
  from initializeContainer_bad_verbosity(1) [OF assms this]
  show "fst (initializeContainer env d cfg tc s) =
          Inl (Error ''lxc driver config 'verbosity' can only be either quiet or verbose'')" .
next
  assume a: "Verbosity tc \<in> {[], ''quiet'', ''verbose''} \<and>
      LogLevel tc \<notin> {[], ''trace'', ''debug'', ''info'', ''warn'', ''error''}"
  then have v: "verbosityLevels (Verbosity tc) = Some (if Verbosity tc = ''verbose'' then Verbose else Quiet)"
    by (intro verbosityLevels_Some) simp
  from a have "logLevels (LogLevel tc) = None"
    by (simp add: logLevels_None)
  from initializeContainer_bad_log_level(1) [OF assms v this]
  show "fst (initializeContainer env d cfg tc s) =
          Inl (Error ''lxc driver config 'log_level' can only be trace, debug, info, warn or error'')" .
next
  assume a: "Verbosity tc \<in> {[], ''quiet'', ''verbose''} \<and>
      LogLevel tc \<in> {[], ''trace'', ''debug'', ''info'', ''warn'', ''error''}"
  then have v: "verbosityLevels (Verbosity tc) = Some (if Verbosity tc = ''verbose'' then Verbose else Quiet)"
    by (intro verbosityLevels_Some) simp
  from a have l: "logLevels (LogLevel tc) =
      Some (if LogLevel tc = ''trace'' then TRACE else if LogLevel tc = ''debug'' then DEBUG
            else if LogLevel tc = ''info'' then INFO else if LogLevel tc = ''warn'' then WARN
            else ERROR)"
    by (intro logLevels_Some) simp
  from initializeContainer_valid [OF assms v l] initializeContainer_valid_trace [OF assms v l]
  show "let n = Name cfg @ ''-'' @ AllocID cfg;
             v = (if Verbosity tc = ''verbose'' then Verbose else Quiet);
             l = (if LogLevel tc = ''trace'' then TRACE else if LogLevel tc = ''debug'' then DEBUG
                  else if LogLevel tc = ''info'' then INFO else if LogLevel tc = ''warn'' then WARN
                  else ERROR);
             calls = [(n, NewContainer (lxcPath env d)), (n, SetVerbosity v), (n, SetLogLevel l)]
         in take 3 (drop (length (lxc_trace s)) (lxc_trace (snd (initializeContainer env d cfg tc s))))
              = calls \<and>
            fst (initializeContainer env d cfg tc s) =
              (case lxc_fail env (lxc_trace s @ take 2 calls) n (SetLogLevel l) of
                 Some err \<Rightarrow> Inl (Error err)
               | None \<Rightarrow>
                   (case lxc_fail env (lxc_trace s @ calls) n
                           (SetLogFile (filepath_Join [Dir (TaskDir cfg), Name cfg @ ''-lxc.log''])) of
                      Some err \<Rightarrow> Inl (Error err)
                    | None \<Rightarrow> Inr \<lparr>c_name = n, c_path = lxcPath env d\<rparr>))"
    unfolding Let_def by simp
qed

theorem initializeContainer_validation_witness:
  "fst (initializeContainer example_host example_Driver example_cfg
          (example_TaskConfig\<lparr>Verbosity := ''loud''\<rparr>) example_World) =
     Inl (Error ''lxc driver config 'verbosity' can only be either quiet or verbose'') \<and>
   fst (initializeContainer example_host example_Driver example_cfg
          (example_TaskConfig\<lparr>LogLevel := ''fatal''\<rparr>) example_World) =
     Inl (Error ''lxc driver config 'log_level' can only be trace, debug, info, warn or error'') \<and>
   fst (initializeContainer example_host example_Driver example_cfg
          (example_TaskConfig\<lparr>Verbosity := ''verbose'', LogLevel := ''debug''\<rparr>) example_World) =
     Inr \<lparr>c_name = ''web-a1'', c_path = ''/var/lib/lxc''\<rparr> \<and>
   take 3 (lxc_trace (snd (initializeContainer example_host example_Driver example_cfg
          (example_TaskConfig\<lparr>Verbosity := ''verbose'', LogLevel := ''debug''\<rparr>) example_World))) =
     [(''web-a1'', NewContainer ''/var/lib/lxc''), (''web-a1'', SetVerbosity Verbose),
      (''web-a1'', SetLogLevel DEBUG)]"
proof -
  have new: "lxc_fail example_host (lxc_trace example_World) (Name example_cfg @ ''-'' @ AllocID example_cfg)
               (NewContainer (lxcPath example_host example_Driver)) = None"
    by (simp add: example_host_def)
  have p: "lxcPath example_host example_Driver = ''/var/lib/lxc''"
    by (simp add: lxcPath_def example_host_def example_Driver_def example_Config_def)
  have n: "Name example_cfg = ''web''" "AllocID example_cfg = ''a1''"
    by (simp_all add: example_cfg_def)
  have f: "\<And>tr c op. lxc_fail example_host tr c op = None"
    by (simp add: example_host_def)
  have t: "lxc_trace example_World = []"
    by (simp add: example_World_def)
  show ?thesis
    using initializeContainer_validation [OF new, where tc = "example_TaskConfig\<lparr>Verbosity := ''loud''\<rparr>"]
          initializeContainer_validation [OF new, where tc = "example_TaskConfig\<lparr>LogLevel := ''fatal''\<rparr>"]
          initializeContainer_validation [OF new,
            where tc = "example_TaskConfig\<lparr>Verbosity := ''verbose'', LogLevel := ''debug''\<rparr>"]
    by (simp add: example_TaskConfig_def Let_def p n f t)
qed

text \<open>
  C7, as the claim has it, fails for the empty string: it is outside both sets of the
  claim, and \<open>initializeContainer\<close> accepts it for the verbosity and for the log level.
\<close>

theorem initializeContainer_validation_counterexample:
  "Verbosity example_TaskConfig \<notin> {''quiet'', ''verbose''} \<and>
   LogLevel example_TaskConfig \<notin> {''trace'', ''debug'', ''info'', ''warn'', ''error''} \<and>
   fst (initializeContainer example_host example_Driver example_cfg example_TaskConfig example_World) =
     Inr \<lparr>c_name = ''web-a1'', c_path = ''/var/lib/lxc''\<rparr>"
  by (simp add: example_initializeContainer) (simp add: example_TaskConfig_def)

text \<open>
  C6, as the source has it. When \<open>initializeContainer\<close> returns a container, the calls
  it has made on it are, in this order: the creation of the container object, the
  verbosity, the log level, the log file, the cgroup directory, one environment
  directive for each entry of the task-level list and then for each entry of the
  environment map, and last of all the load of the base configuration file, whose
  path is the task-specific one when that is not empty and the driver-level one
  otherwise. The base configuration is loaded after the task-specific settings.
\<close>

theorem initializeContainer_loads_base_config_last:
  assumes "fst (initializeContainer env d cfg tc s) = Inr c"
  shows "\<exists>v l. verbosityLevels (Verbosity tc) = Some v \<and> logLevels (LogLevel tc) = Some l \<and>
           lxc_trace (snd (initializeContainer env d cfg tc s)) =
             lxc_trace s @
             map (Pair (c_name c))
               ([NewContainer (c_path c), SetVerbosity v, SetLogLevel l,
                 SetLogFile (filepath_Join [Dir (TaskDir cfg), Name cfg @ ''-lxc.log'']),
                 SetConfigItem ''lxc.cgroup.dir'' (Cgroup tc)]
                @ map (SetConfigItem ''lxc.environment'')
                    (Environment tc @ map (\<lambda>(key, val). key @ ''='' @ val) (Env cfg))
                @ [LoadConfigFile (if DefaultConfig tc = [] then Config_DefaultConfig (config d)
                                   else DefaultConfig tc)])"
  using initializeContainer_success(2) [OF assms] initializeContainer_success(1) [OF assms]
  by simp

theorem initializeContainer_loads_base_config_last_witness:
  "fst (initializeContainer example_host example_Driver example_cfg
          (example_TaskConfig\<lparr>Environment := [''A=1''], DefaultConfig := ''/etc/task.conf''\<rparr>)
          example_World) = Inr \<lparr>c_name = ''web-a1'', c_path = ''/var/lib/lxc''\<rparr> \<and>
   (\<exists>v l. lxc_trace (snd (initializeContainer example_host example_Driver example_cfg
          (example_TaskConfig\<lparr>Environment := [''A=1''], DefaultConfig := ''/etc/task.conf''\<rparr>)
          example_World)) =
      [(''web-a1'', NewContainer ''/var/lib/lxc''),
       (''web-a1'', SetVerbosity v),
       (''web-a1'', SetLogLevel l),
       (''web-a1'', SetLogFile (filepath_Join [''/alloc/a1/web'', ''web-lxc.log''])),
       (''web-a1'', SetConfigItem ''lxc.cgroup.dir'' []),
       (''web-a1'', SetConfigItem ''lxc.environment'' ''A=1''),
       (''web-a1'', SetConfigItem ''lxc.environment'' ''PORT=8080''),
       (''web-a1'', LoadConfigFile ''/etc/task.conf'')])"
proof -
  have r: "fst (initializeContainer example_host example_Driver example_cfg
          (example_TaskConfig\<lparr>Environment := [''A=1''], DefaultConfig := ''/etc/task.conf''\<rparr>)
          example_World) = Inr \<lparr>c_name = ''web-a1'', c_path = ''/var/lib/lxc''\<rparr>"
    by (simp add: initializeContainer_def lxc_def logger_def example_host_def example_cfg_def
        example_TaskConfig_def example_World_def example_Driver_def example_Config_def lxcPath_def
        verbosityLevels_def logLevels_def filepath_Join.simps filepath_Clean_def)
  from initializeContainer_loads_base_config_last [OF r] r show ?thesis
    by (simp add: example_cfg_def example_TaskConfig_def example_World_def) blast
qed

text \<open>
  C6, as the claim has it, fails: on the example task the load of the base
  configuration file is the last of the seven calls, after the verbosity, the log
  level, the log file, the cgroup directory and the environment directive.
\<close>

theorem initializeContainer_load_order_counterexample:
  "lxc_trace (snd (initializeContainer example_host example_Driver example_cfg example_TaskConfig
                     example_World)) =
     [(''web-a1'', NewContainer ''/var/lib/lxc''),
      (''web-a1'', SetVerbosity Quiet),
      (''web-a1'', SetLogLevel ERROR),
      (''web-a1'', SetLogFile ''/alloc/a1/web/web-lxc.log''),
      (''web-a1'', SetConfigItem ''lxc.cgroup.dir'' []),
      (''web-a1'', SetConfigItem ''lxc.environment'' ''PORT=8080''),
      (''web-a1'', LoadConfigFile ''/etc/lxc/default.conf'')]"
  by (simp add: example_initializeContainer)

section \<open>Resource limits: properties\<close>

lemma bit_length_0: "bit_length 0 = 0"
  by (subst bit_length.simps) simp

lemma bit_length_pos: "n \<noteq> 0 \<Longrightarrow> bit_length n = Suc (bit_length (n div 2))"
  by (subst bit_length.simps) simp

lemma FormatUint_digit: "n < 10 \<Longrightarrow> FormatUint n = [''0123456789'' ! n]"
  by (subst FormatUint.simps) simp

lemma FormatUint_more:
  "\<not> n < 10 \<Longrightarrow> FormatUint n = FormatUint (n div 10) @ [''0123456789'' ! (n mod 10)]"
  by (subst FormatUint.simps) simp



lemma bit_length_2_53_1: "bit_length 9007199254740993 = 54"
  by (simp add: bit_length_pos bit_length_0)


lemma float64_of_int_2_53_1: "float64_of_int 9007199254740993 = 9007199254740992"
proof -
  have a: "nat \<bar>9007199254740993 :: int\<bar> = 9007199254740993" by simp
  show ?thesis
    unfolding float64_of_int_def Let_def a bit_length_2_53_1 by simp
qed


lemma FormatUint_512: "FormatUint 512 = ''512''"
  by (simp add: FormatUint_digit FormatUint_more)

lemma FormatUint_2_73: "FormatUint 9444732965739290427392 = ''9444732965739290427392''"
  by (simp add: FormatUint_digit FormatUint_more)


section \<open>Starting a task: properties\<close>


lemma StartTask_registered:
  assumes "tasks d (ID cfg) = Some x"
  shows "StartTask env cfg d s0 =
           (Inl (Error (''task with ID '' @ strconv_Quote env (ID cfg) @ '' already started'')), d, s0)"
  using assms unfolding StartTask_def taskStore_Get_def by simp

lemma StartTask_decode_failed:
  assumes "tasks d (ID cfg) = None" and "DecodeDriverConfig cfg = Inl err"
  shows "StartTask env cfg d s0 = (Inl (Error (''failed to decode driver config: '' @ err)), d, s0)"
  using assms unfolding StartTask_def taskStore_Get_def by simp

lemma StartTask_initialize_failed:
  assumes "tasks d (ID cfg) = None" and "DecodeDriverConfig cfg = Inr dc"
    and "initializeContainer env d cfg dc
           (logger LInfo ''starting lxc task'' None
              (logger LInfo ''starting lxc task driver'' None s0)) = (Inl err, s1)"
  shows "StartTask env cfg d s0 =
           (Inl err, d, logger LError ''failed to initializeContainer'' (Some (error_text err)) s1)"
  using assms unfolding StartTask_def taskStore_Get_def by simp

lemma StartTask_create_failed:
  assumes "tasks d (ID cfg) = None" and "DecodeDriverConfig cfg = Inr dc"
    and "initializeContainer env d cfg dc
           (logger LInfo ''starting lxc task'' None
              (logger LInfo ''starting lxc task driver'' None s0)) = (Inr c, s1)"
    and "lxc env c (Create (toLXCCreateOptions dc)) s1 = (Some err, s2)"
  shows "StartTask env cfg d s0 = (Inl (Recoverable err), d, s2)"
  using assms unfolding StartTask_def taskStore_Get_def by simp






lemma StartTask_started:
  assumes "tasks d (ID cfg) = None" and "DecodeDriverConfig cfg = Inr dc"
    and "initializeContainer env d cfg dc
           (logger LInfo ''starting lxc task'' None
              (logger LInfo ''starting lxc task driver'' None s0)) = (Inr c, s1)"
    and "lxc env c (Create (toLXCCreateOptions dc)) s1 = (None, s2)"
    and "configureContainerNetwork env d c dc s2 = (None, s3)"
    and "mountVolumes env d c cfg dc s3 = (None, s4)"
    and "lxc env c (StartExecute (Command dc)) s4 = (None, s5)"
    and "setResourceLimits env c cfg s5 = (None, s6)"
    and "SetDriverState env \<lparr>TS_TaskConfig = cfg, ContainerName = c_name c,
                                StartedAt = time_Round (time_Now env) Millisecond\<rparr> = Inr st"
  shows "StartTask env cfg d s0 =
           (Inr \<lparr>H_Version = 1, H_Config = cfg, H_State = TaskStateUnknown, H_DriverState = Some st\<rparr>,
            d\<lparr>tasks := (tasks d)(ID cfg \<mapsto>
                          \<lparr>th_container = c,
                           th_initPid = lxc_InitPid env (lxc_trace s6) (c_name c),
                           th_taskConfig = cfg,
                           th_procState = TaskStateRunning,
                           th_startedAt = time_Round (time_Now env) Millisecond,
                           th_exitResult = None\<rparr>),
               monitors := monitors d @ [ID cfg]\<rparr>,
            s6)"
  using assms unfolding StartTask_def taskStore_Get_def taskStore_Set_def Let_def taskHandleVersion_def
  by simp




section \<open>Destroying a task: properties\<close>

lemma DestroyTask_running_not_forced:
  assumes "tasks d taskID = Some h" and "IsRunning env h" and "\<not> force"
  shows "DestroyTask env taskID force d s =
           (Some (Error ''cannot destroy running task''), d,
            s\<lparr>logs := logs s @ [(LInfo, ''destory lxc task'', None),
                                 (LInfo, ''destroy lxc task'', None)]\<rparr>)"
  using assms unfolding DestroyTask_def Let_def taskStore_Get_def logger_def
  by simp

lemma DestroyTask_not_running:
  assumes "tasks d taskID = Some h" and "\<not> IsRunning env h"
  shows "DestroyTask env taskID force d s =
           (None, d\<lparr>tasks := (tasks d)(taskID := None)\<rparr>,
            \<lparr>lxc_trace = lxc_trace s @ [(c_name (th_container h), Destroy)],
             logs = logs s @ [(LInfo, ''destory lxc task'', None),
                              (LInfo, ''Destroying container'', None)]
                    @ (case lxc_fail env (lxc_trace s) (c_name (th_container h)) Destroy of
                         Some err \<Rightarrow> [(LInfo, ''destory lxc task'', None),
                                      (LError, ''failed to destroy lxc container'', Some err)]
                       | None \<Rightarrow> [])\<rparr>)"
  using assms unfolding DestroyTask_def Let_def taskStore_Get_def taskStore_Delete_def logger_def lxc_def
  by (simp split: option.split)

lemma DestroyTask_running_forced:
  assumes "tasks d taskID = Some h" and "IsRunning env h" and "force"
    and "shutdown env h 60000000000 (lxc_trace s) = (r, h', evs)"
  shows "DestroyTask env taskID force d s =
           (None, d\<lparr>tasks := (tasks d)(taskID := None)\<rparr>,
            \<lparr>lxc_trace = lxc_trace s @ evs @ [(c_name (th_container h'), Destroy)],
             logs = logs s @ [(LInfo, ''destory lxc task'', None)]
                    @ (case r of
                         Some err \<Rightarrow> [(LInfo, ''destory lxc task'', None),
                                      (LError, ''failed to destroy executor'', Some err)]
                       | None \<Rightarrow> [])
                    @ [(LInfo, ''Destroying container'', None)]
                    @ (case lxc_fail env (lxc_trace s @ evs) (c_name (th_container h')) Destroy of
                         Some err \<Rightarrow> [(LInfo, ''destory lxc task'', None),
                                      (LError, ''failed to destroy lxc container'', Some err)]
                       | None \<Rightarrow> [])\<rparr>)"
  using assms unfolding DestroyTask_def Let_def taskStore_Get_def taskStore_Delete_def logger_def lxc_def
  by (simp split: option.split)

lemma DestroyTask_not_found:
  assumes "tasks d taskID = None"
  shows "DestroyTask env taskID force d s =
           (Some ErrTaskNotFound, d, s\<lparr>logs := logs s @ [(LInfo, ''destory lxc task'', None)]\<rparr>)"
  using assms unfolding DestroyTask_def Let_def taskStore_Get_def logger_def
  by simp

text \<open>
  C10. For a registered task, DestroyTask does exactly this, for every runtime and
  every behaviour of \<open>IsRunning\<close> and \<open>shutdown\<close>.

  When the task is running and \<open>force\<close> is false, it returns the error "cannot destroy
  running task", makes no call on the runtime and leaves the driver, and so the store
  entry, as it is.

  Otherwise it returns nil and removes the task's entry from the store, leaving every
  other entry in place. When the task is running (and so \<open>force\<close> is set) it first calls
  \<open>shutdown\<close> with a grace period of one minute; then, in both cases, it calls
  \<open>Destroy\<close> on the container. A failure of \<open>shutdown\<close> or of \<open>Destroy\<close> changes only
  the lines that are logged.
\<close>

theorem DestroyTask_registered:
  assumes "tasks d taskID = Some h"
  shows
    "(IsRunning env h \<and> \<not> force \<longrightarrow>
        DestroyTask env taskID force d s =
          (Some (Error ''cannot destroy running task''), d,
           s\<lparr>logs := logs s @ [(LInfo, ''destory lxc task'', None),
                                (LInfo, ''destroy lxc task'', None)]\<rparr>)) \<and>
     (\<not> IsRunning env h \<longrightarrow>
        DestroyTask env taskID force d s =
          (None, d\<lparr>tasks := (tasks d)(taskID := None)\<rparr>,
           \<lparr>lxc_trace = lxc_trace s @ [(c_name (th_container h), Destroy)],
            logs = logs s @ [(LInfo, ''destory lxc task'', None),
                             (LInfo, ''Destroying container'', None)]
                   @ (case lxc_fail env (lxc_trace s) (c_name (th_container h)) Destroy of
                        Some err \<Rightarrow> [(LInfo, ''destory lxc task'', None),
                                     (LError, ''failed to destroy lxc container'', Some err)]
                      | None \<Rightarrow> [])\<rparr>)) \<and>
     (IsRunning env h \<and> force \<longrightarrow>
        (case shutdown env h 60000000000 (lxc_trace s) of
           (r, h', evs) \<Rightarrow>
             DestroyTask env taskID force d s =
               (None, d\<lparr>tasks := (tasks d)(taskID := None)\<rparr>,
                \<lparr>lxc_trace = lxc_trace s @ evs @ [(c_name (th_container h'), Destroy)],
                 logs = logs s @ [(LInfo, ''destory lxc task'', None)]
                        @ (case r of
                             Some err \<Rightarrow> [(LInfo, ''destory lxc task'', None),
                                          (LError, ''failed to destroy executor'', Some err)]
                           | None \<Rightarrow> [])
                        @ [(LInfo, ''Destroying container'', None)]
                        @ (case lxc_fail env (lxc_trace s @ evs) (c_name (th_container h'))
                                  Destroy of
                             Some err \<Rightarrow> [(LInfo, ''destory lxc task'', None),
                                          (LError, ''failed to destroy lxc container'', Some err)]
                           | None \<Rightarrow> [])\<rparr>)))"
proof (intro conjI impI)
  assume "IsRunning env h \<and> \<not> force"
  then show "DestroyTask env taskID force d s =
          (Some (Error ''cannot destroy running task''), d,
           s\<lparr>logs := logs s @ [(LInfo, ''destory lxc task'', None),
                                (LInfo, ''destroy lxc task'', None)]\<rparr>)"
    using DestroyTask_running_not_forced [OF assms] by blast
next
  assume "\<not> IsRunning env h"
  from DestroyTask_not_running [OF assms this]
  show "DestroyTask env taskID force d s =
          (None, d\<lparr>tasks := (tasks d)(taskID := None)\<rparr>,
           \<lparr>lxc_trace = lxc_trace s @ [(c_name (th_container h), Destroy)],
            logs = logs s @ [(LInfo, ''destory lxc task'', None),
                             (LInfo, ''Destroying container'', None)]
                   @ (case lxc_fail env (lxc_trace s) (c_name (th_container h)) Destroy of
                        Some err \<Rightarrow> [(LInfo, ''destory lxc task'', None),
                                     (LError, ''failed to destroy lxc container'', Some err)]
                      | None \<Rightarrow> [])\<rparr>)" .
next
  assume a: "IsRunning env h \<and> force"
  obtain r h' evs where sh: "shutdown env h 60000000000 (lxc_trace s) = (r, h', evs)"
    by (cases "shutdown env h 60000000000 (lxc_trace s)") auto
  from a have run: "IsRunning env h" and f: "force" by simp_all
  show "case shutdown env h 60000000000 (lxc_trace s) of
           (r, h', evs) \<Rightarrow>
             DestroyTask env taskID force d s =
               (None, d\<lparr>tasks := (tasks d)(taskID := None)\<rparr>,
                \<lparr>lxc_trace = lxc_trace s @ evs @ [(c_name (th_container h'), Destroy)],
                 logs = logs s @ [(LInfo, ''destory lxc task'', None)]
                        @ (case r of
                             Some err \<Rightarrow> [(LInfo, ''destory lxc task'', None),
                                          (LError, ''failed to destroy executor'', Some err)]
                           | None \<Rightarrow> [])
                        @ [(LInfo, ''Destroying container'', None)]
                        @ (case lxc_fail env (lxc_trace s @ evs) (c_name (th_container h'))
                                  Destroy of
                             Some err \<Rightarrow> [(LInfo, ''destory lxc task'', None),
                                          (LError, ''failed to destroy lxc container'', Some err)]
                           | None \<Rightarrow> [])\<rparr>)"
    unfolding sh prod.case
    by (rule DestroyTask_running_forced [OF assms run f sh])
qed

theorem DestroyTask_registered_witness:
  "DestroyTask example_host ''a1/web'' False
       (example_Driver\<lparr>tasks := [''a1/web'' \<mapsto> example_taskHandle]\<rparr>) example_World =
     (Some (Error ''cannot destroy running task''),
      example_Driver\<lparr>tasks := [''a1/web'' \<mapsto> example_taskHandle]\<rparr>,
      \<lparr>lxc_trace = [],
       logs = [(LInfo, ''destory lxc task'', None), (LInfo, ''destroy lxc task'', None)]\<rparr>) \<and>
   DestroyTask example_host_no_destroy ''a1/web'' True
       (example_Driver\<lparr>tasks := [''a1/web'' \<mapsto> example_taskHandle]\<rparr>) example_World =
     (None, example_Driver\<lparr>tasks := Map.empty\<rparr>,
      \<lparr>lxc_trace = [(''web-a1'', Stop), (''web-a1'', Destroy)],
       logs = [(LInfo, ''destory lxc task'', None), (LInfo, ''Destroying container'', None),
               (LInfo, ''destory lxc task'', None),
               (LError, ''failed to destroy lxc container'', Some ''container is busy'')]\<rparr>) \<and>
   DestroyTask example_host_no_destroy ''a1/web'' False
       (example_Driver\<lparr>tasks := [''a1/web'' \<mapsto> example_taskHandle\<lparr>th_procState := TaskStateExited\<rparr>]\<rparr>)
       example_World =
     (None, example_Driver\<lparr>tasks := Map.empty\<rparr>,
      \<lparr>lxc_trace = [(''web-a1'', Destroy)],
       logs = [(LInfo, ''destory lxc task'', None), (LInfo, ''Destroying container'', None),
               (LInfo, ''destory lxc task'', None),
               (LError, ''failed to destroy lxc container'', Some ''container is busy'')]\<rparr>)"
proof -
  have r1: "tasks (example_Driver\<lparr>tasks := [''a1/web'' \<mapsto> example_taskHandle]\<rparr>) ''a1/web'' =
              Some example_taskHandle"
    by simp
  have r2: "tasks (example_Driver\<lparr>tasks := [''a1/web'' \<mapsto> example_taskHandle\<lparr>th_procState := TaskStateExited\<rparr>]\<rparr>)
              ''a1/web'' = Some (example_taskHandle\<lparr>th_procState := TaskStateExited\<rparr>)"
    by simp
  from DestroyTask_registered [OF r1, of example_host False example_World]
       DestroyTask_registered [OF r1, of example_host_no_destroy True example_World]
       DestroyTask_registered [OF r2, of example_host_no_destroy False example_World]
  show ?thesis
    by (simp add: example_host_no_destroy_def example_host_def example_taskHandle_def
          example_World_def example_Container_def)
qed

section \<open>Recovering a task: properties\<close>



lemma RecoverTask_recovered:
  assumes "H_Version h \<noteq> 0" and "tasks d (ID (H_Config h)) = None"
    and "GetDriverState env (H_DriverState h) = Inr ts"
    and "lxc_fail env (lxc_trace s) (ContainerName ts) (NewContainer (lxcPath env d)) = None"
  shows "RecoverTask env (Some h) d s =
           (None,
            d\<lparr>tasks := (tasks d)(ID (TS_TaskConfig ts) \<mapsto>
                          \<lparr>th_container = \<lparr>c_name = ContainerName ts, c_path = lxcPath env d\<rparr>,
                           th_initPid = lxc_InitPid env
                                          (lxc_trace s @ [(ContainerName ts, NewContainer (lxcPath env d))])
                                          (ContainerName ts),
                           th_taskConfig = TS_TaskConfig ts,
                           th_procState = TaskStateRunning,
                           th_startedAt = StartedAt ts,
                           th_exitResult = Some (0, False, None)\<rparr>),
               monitors := monitors d @ [ID (TS_TaskConfig ts)]\<rparr>,
            \<lparr>lxc_trace = lxc_trace s @ [(ContainerName ts, NewContainer (lxcPath env d))],
             logs = logs s @ [(LInfo, ''recover lxc task'', None)]\<rparr>)"
  using assms unfolding RecoverTask_def Let_def logger_def taskStore_Get_def taskStore_Set_def lxc_def
  by simp




end
